theory Spec2Isabelle
  imports Main "HOL-Library.Sublist"
begin

section \<open>Text\<close>

text \<open>
  Python's \<^verbatim>\<open>str\<close> is modelled as \<^typ>\<open>string\<close>: a character of the model is a code
  point below 256 (ASCII and the Latin-1 supplement), and \<^const>\<open>of_char\<close> gives the code
  point. The character classes below are Python's on these code points. Text with a
  code point from 256 on is not a value of the model. The bytes of a report are those
  of its UTF-8 form (\<open>utf8\<close> below).
\<close>

definition is_space :: "char \<Rightarrow> bool" where
  \<comment> \<open>\<^verbatim>\<open>str.isspace\<close>, which \<^verbatim>\<open>strip()\<close> and \<^verbatim>\<open>split()\<close> use, and the regex class \<^verbatim>\<open>\s\<close>: TAB, LF,
      VT, FF, CR, FS, GS, RS, US, SPACE, NEL (U+0085) and NBSP (U+00A0)\<close>
  "is_space c =
     (let n = (of_char c :: nat) in (9 \<le> n \<and> n \<le> 13) \<or> (28 \<le> n \<and> n \<le> 32) \<or> n = 133 \<or> n = 160)"

definition is_lower :: "char \<Rightarrow> bool" where
  \<comment> \<open>the regex class \<^verbatim>\<open>[a-z]\<close>\<close>
  "is_lower c = (let n = (of_char c :: nat) in 97 \<le> n \<and> n \<le> 122)"

definition is_upper :: "char \<Rightarrow> bool" where
  \<comment> \<open>the regex class \<^verbatim>\<open>[A-Z]\<close>\<close>
  "is_upper c = (let n = (of_char c :: nat) in 65 \<le> n \<and> n \<le> 90)"

definition is_digit :: "char \<Rightarrow> bool" where
  \<comment> \<open>a character for which \<^verbatim>\<open>str.isdigit\<close> holds: \<^verbatim>\<open>0\<close> to \<^verbatim>\<open>9\<close> and the superscripts two,
      three (U+00B2, U+00B3) and one (U+00B9)\<close>
  "is_digit c =
     (let n = (of_char c :: nat) in (48 \<le> n \<and> n \<le> 57) \<or> n = 178 \<or> n = 179 \<or> n = 185)"

definition is_alpha :: "char \<Rightarrow> bool" where
  \<comment> \<open>the regex class \<^verbatim>\<open>[a-zA-Z]\<close>\<close>
  "is_alpha c = (is_lower c \<or> is_upper c)"

definition is_word :: "char \<Rightarrow> bool" where
  \<comment> \<open>the regex class \<^verbatim>\<open>\w\<close> of a \<^verbatim>\<open>str\<close> pattern, which decides the word boundary \<^verbatim>\<open>\b\<close>: the
      underscore and the characters for which \<^verbatim>\<open>str.isalnum\<close> holds (below 256: the ASCII
      letters and digits, U+00AA, U+00B2, U+00B3, U+00B5, U+00B9, U+00BA, U+00BC to U+00BE,
      and the letters U+00C0 to U+00FF without the signs U+00D7 and U+00F7)\<close>
  "is_word c =
     (let n = (of_char c :: nat) in
      (48 \<le> n \<and> n \<le> 57) \<or> (65 \<le> n \<and> n \<le> 90) \<or> n = 95 \<or> (97 \<le> n \<and> n \<le> 122) \<or>
      n = 170 \<or> n = 178 \<or> n = 179 \<or> n = 181 \<or> n = 185 \<or> n = 186 \<or> (188 \<le> n \<and> n \<le> 190) \<or>
      (192 \<le> n \<and> n \<le> 214) \<or> (216 \<le> n \<and> n \<le> 246) \<or> (248 \<le> n \<and> n \<le> 255))"

definition lower_char :: "char \<Rightarrow> char" where
  \<comment> \<open>\<^verbatim>\<open>str.lower\<close> on one character: the capital letters are \<^verbatim>\<open>A\<close> to \<^verbatim>\<open>Z\<close> and U+00C0 to
      U+00DE without the sign U+00D7; each has its small letter 32 places on\<close>
  "lower_char c =
     (let n = (of_char c :: nat) in
      if (65 \<le> n \<and> n \<le> 90) \<or> (192 \<le> n \<and> n \<le> 214) \<or> (216 \<le> n \<and> n \<le> 222)
      then char_of (n + 32) else c)"

definition lower :: "string \<Rightarrow> string" where
  \<comment> \<open>\<^verbatim>\<open>str.lower\<close>\<close>
  "lower s = map lower_char s"

definition isdigit :: "string \<Rightarrow> bool" where
  \<comment> \<open>\<^verbatim>\<open>str.isdigit\<close>: at least one character, and all of them digits\<close>
  "isdigit s = (s \<noteq> [] \<and> list_all is_digit s)"

definition strip :: "string \<Rightarrow> string" where
  \<comment> \<open>\<^verbatim>\<open>str.strip()\<close>: whitespace removed at both ends\<close>
  "strip s = rev (dropWhile is_space (rev (dropWhile is_space s)))"

function replace :: "string \<Rightarrow> string \<Rightarrow> string \<Rightarrow> string" where
  \<comment> \<open>\<^verbatim>\<open>s.replace(old, new)\<close> for a non-empty \<^verbatim>\<open>old\<close>: leftmost occurrences, not overlapping.
      The source never passes an empty \<^verbatim>\<open>old\<close>; the model leaves the text unchanged then.\<close>
  "replace old new [] = []"
| "replace old new (c # cs) =
     (if old \<noteq> [] \<and> prefix old (c # cs)
      then new @ replace old new (drop (length old) (c # cs))
      else c # replace old new cs)"
  by pat_completeness auto
termination
  by (relation "measure (\<lambda>(old, new, s). length s)") auto

fun split_on :: "char \<Rightarrow> string \<Rightarrow> string list" where
  \<comment> \<open>\<^verbatim>\<open>s.split(d)\<close> for a one-character separator: one more piece than separators\<close>
  "split_on d [] = [[]]"
| "split_on d (c # cs) =
     (if c = d then [] # split_on d cs
      else (case split_on d cs of [] \<Rightarrow> [[c]] | p # ps \<Rightarrow> (c # p) # ps))"

function split_ws :: "string \<Rightarrow> string list" where
  \<comment> \<open>\<^verbatim>\<open>s.split()\<close>: the maximal runs of characters that are not whitespace\<close>
  "split_ws s =
     (let t = dropWhile is_space s in
      if t = [] then []
      else takeWhile (\<lambda>c. \<not> is_space c) t # split_ws (dropWhile (\<lambda>c. \<not> is_space c) t))"
  by pat_completeness auto
termination
proof (relation "measure length")
  show "wf (measure length)" by simp
next
  fix s t :: string
  assume t: "t = dropWhile is_space s" and ne: "t \<noteq> []"
  from ne obtain c cs where tc: "t = c # cs" by (cases t) auto
  have "\<not> is_space c"
    using t tc hd_dropWhile [of is_space s] by (metis list.sel(1) ne)
  then have "dropWhile (\<lambda>c. \<not> is_space c) t = dropWhile (\<lambda>c. \<not> is_space c) cs"
    using tc by simp
  then have "length (dropWhile (\<lambda>c. \<not> is_space c) t) \<le> length cs"
    by (simp add: length_dropWhile_le)
  moreover have "length t \<le> length s"
    using t by (simp add: length_dropWhile_le)
  ultimately show "(dropWhile (\<lambda>c. \<not> is_space c) t, s) \<in> measure length"
    using tc by simp
qed

declare split_ws.simps [simp del]

fun join :: "string \<Rightarrow> string list \<Rightarrow> string" where
  \<comment> \<open>\<^verbatim>\<open>sep.join(xs)\<close>\<close>
  "join sep [] = []"
| "join sep [x] = x"
| "join sep (x # y # ys) = x @ sep @ join sep (y # ys)"

definition digit_char :: "nat \<Rightarrow> char" where
  "digit_char n = char_of (48 + n)"

function str_nat :: "nat \<Rightarrow> string" where
  \<comment> \<open>\<^verbatim>\<open>str(n)\<close> of a natural number: its decimal digits\<close>
  "str_nat n = (if n < 10 then [digit_char n] else str_nat (n div 10) @ [digit_char (n mod 10)])"
  by pat_completeness auto
termination
  by (relation "measure id") auto

declare str_nat.simps [simp del]

section \<open>The two repair passes over a user name\<close>

text \<open>
  \<^verbatim>\<open>re.sub(r'([a-z])\s+([a-z])', r'\1\2', raw_name)\<close>. At a lower-case letter the greedy
  \<^verbatim>\<open>\s+\<close> takes the whole run of whitespace; giving part of it back leaves a whitespace
  character where \<^verbatim>\<open>[a-z]\<close> is wanted, so the match succeeds exactly when the run is not
  empty and a lower-case letter follows it. The search goes on after the match: the
  second letter is consumed and cannot start the next match.
\<close>

function sub_lower_gap :: "string \<Rightarrow> string" where
  "sub_lower_gap [] = []"
| "sub_lower_gap (c # cs) =
     (let rest = dropWhile is_space cs in
      if is_lower c \<and> rest \<noteq> cs \<and> rest \<noteq> [] \<and> is_lower (hd rest)
      then c # hd rest # sub_lower_gap (tl rest)
      else c # sub_lower_gap cs)"
  by pat_completeness auto
termination
proof (relation "measure length")
  show "wf (measure length)" by simp
next
  fix c :: char and cs rest :: string
  assume "rest = dropWhile is_space cs"
  then have "length rest \<le> length cs"
    by (simp add: length_dropWhile_le)
  then have "length (tl rest) \<le> length cs"
    by simp
  then show "(tl rest, c # cs) \<in> measure length" by simp
next
  fix c :: char and cs :: string
  show "(cs, c # cs) \<in> measure length" by simp
qed

text \<open>
  \<^verbatim>\<open>re.sub(r'([a-zA-Z])\s+([a-z]{1,2}\b)', r'\1\2', user_name)\<close>. After a letter and a
  non-empty run of whitespace, the greedy \<^verbatim>\<open>[a-z]{1,2}\<close> first tries two lower-case
  letters and then one; \<^verbatim>\<open>\b\<close> after a letter holds when the text ends there or goes on
  with a character outside \<^verbatim>\<open>\w\<close>.
\<close>

definition at_boundary :: "string \<Rightarrow> bool" where
  \<comment> \<open>\<^verbatim>\<open>\b\<close> right after a word character, \<open>s\<close> being the text that follows\<close>
  "at_boundary s = (case s of [] \<Rightarrow> True | d # _ \<Rightarrow> \<not> is_word d)"

function sub_short_tail :: "string \<Rightarrow> string" where
  "sub_short_tail [] = []"
| "sub_short_tail (c # cs) =
     (let rest = dropWhile is_space cs in
      if is_alpha c \<and> rest \<noteq> cs \<and> length rest \<ge> 2 \<and> is_lower (rest ! 0) \<and> is_lower (rest ! 1)
         \<and> at_boundary (drop 2 rest)
      then c # rest ! 0 # rest ! 1 # sub_short_tail (drop 2 rest)
      else if is_alpha c \<and> rest \<noteq> cs \<and> rest \<noteq> [] \<and> is_lower (hd rest) \<and> at_boundary (tl rest)
      then c # hd rest # sub_short_tail (tl rest)
      else c # sub_short_tail cs)"
  by pat_completeness auto
termination
proof (relation "measure length")
  show "wf (measure length)" by simp
next
  fix c :: char and cs rest :: string
  assume "rest = dropWhile is_space cs"
  then have "length rest \<le> length cs"
    by (simp add: length_dropWhile_le)
  then have "length (drop 2 rest) \<le> length cs"
    by simp
  then show "(drop 2 rest, c # cs) \<in> measure length" by simp
next
  fix c :: char and cs rest :: string
  assume "rest = dropWhile is_space cs"
  then have "length rest \<le> length cs"
    by (simp add: length_dropWhile_le)
  then have "length (tl rest) \<le> length cs"
    by simp
  then show "(tl rest, c # cs) \<in> measure length" by simp
next
  fix c :: char and cs :: string
  show "(cs, c # cs) \<in> measure length" by simp
qed

definition repair_name :: "string \<Rightarrow> string" where
  \<comment> \<open>lines 29-37: the two passes, then \<^verbatim>\<open>" ".join(user_name.split())\<close>\<close>
  "repair_name raw_name = join '' '' (split_ws (sub_short_tail (sub_lower_gap raw_name)))"

section \<open>The parser\<close>

subsection \<open>Errors\<close>

text \<open>
  An exception is a value: \<^verbatim>\<open>ValueError\<close> with its message, the error with which \<^verbatim>\<open>open\<close>
  refuses a file, and the \<^verbatim>\<open>IndexError\<close> of an index out of range.
\<close>

datatype error = ValueError string | PermissionError | IndexError

definition index :: "'a list \<Rightarrow> nat \<Rightarrow> error + 'a" where
  \<comment> \<open>\<^verbatim>\<open>xs[i]\<close> for an index \<open>i \<ge> 0\<close>\<close>
  "index xs i = (if i < length xs then Inr (xs ! i) else Inl IndexError)"

subsection \<open>One line\<close>

definition clean_line :: "string \<Rightarrow> string" where
  \<comment> \<open>line 19\<close>
  "clean_line line = replace '', '' '','' (replace '' ,'' '','' (strip line))"

definition line_parts :: "string \<Rightarrow> string list" where
  \<comment> \<open>line 21, on the cleaned line\<close>
  "line_parts l = map strip (split_on CHR '','' l)"

definition user_id_of :: "string list \<Rightarrow> string" where
  \<comment> \<open>lines 24-25\<close>
  "user_id_of parts = replace ''User '' [] (parts ! 0)"

definition user_name_of :: "string list \<Rightarrow> string" where
  \<comment> \<open>lines 29-37\<close>
  "user_name_of parts = repair_name (parts ! 1)"

definition passcode_of :: "string list \<Rightarrow> string" where
  \<comment> \<open>line 39\<close>
  "passcode_of parts = replace '' '' [] (parts ! 2)"

fun scan_auth :: "nat \<Rightarrow> string list \<Rightarrow> string option" where
  \<comment> \<open>lines 43-46: the loop over \<^verbatim>\<open>enumerate(auth_levels, start=1)\<close> with its \<^verbatim>\<open>break\<close>\<close>
  "scan_auth idx [] = None"
| "scan_auth idx (val # vals) =
     (if val \<noteq> ''0'' \<and> lower val \<noteq> ''no'' then Some (''A'' @ str_nat idx)
      else scan_auth (Suc idx) vals)"

definition auth_levels :: "string list \<Rightarrow> string list" where
  \<comment> \<open>line 41: the slice \<^verbatim>\<open>parts[5:13]\<close>, shorter when the line has fewer than 13 fields\<close>
  "auth_levels parts = take 8 (drop 5 parts)"

definition auth_val_of :: "string list \<Rightarrow> string" where
  \<comment> \<open>lines 41-48\<close>
  "auth_val_of parts = (case scan_auth 1 (auth_levels parts) of None \<Rightarrow> ''None'' | Some a \<Rightarrow> a)"

definition is_user_star :: "string \<Rightarrow> bool" where
  \<comment> \<open>lines 54-55\<close>
  "is_user_star user_name =
     (prefix ''User '' user_name \<and> isdigit (replace '' '' [] (drop 5 user_name)))"

definition has_passcode :: "string \<Rightarrow> bool" where
  \<comment> \<open>line 56\<close>
  "has_passcode passcode = (passcode \<noteq> [] \<and> passcode \<noteq> ''0'')"

text \<open>
  Lines 19-58 for one line of the file: the id and the record
  \<^verbatim>\<open>[user_name, passcode, auth_val]\<close> with which the line reaches the deduplication of
  line 60, or \<open>None\<close> when the line is skipped before.
\<close>

definition line_record :: "string \<Rightarrow> (string \<times> string list) option" where
  "line_record line =
     (let l = clean_line line in
      if prefix ''User '' l then
        (let parts = line_parts l in
         if length parts > 6 then
           (let user_id = user_id_of parts;
                user_name = user_name_of parts;
                passcode = passcode_of parts;
                auth_val = auth_val_of parts
            in if \<not> is_user_star user_name \<or> has_passcode passcode
               then Some (user_id, [user_name, passcode, auth_val])
               else None)
         else None)
      else None)"

subsection \<open>The loop\<close>

text \<open>
  \<^verbatim>\<open>seen_users\<close> is a Python dict, which keeps its keys in the order of their first
  insertion: an association list with distinct keys, new keys added at the end.
\<close>

type_synonym seen_users = "(string \<times> string list) list"

text \<open>
  The body of the loop of line 18 as the source has it, with the three indexings of
  lines 24, 29 and 39 as operations that can raise: the new \<^verbatim>\<open>seen_users\<close>, or the
  error.
\<close>

definition loop_fields :: "string list \<Rightarrow> error + string \<times> string \<times> string" where
  \<comment> \<open>lines 24-39: \<^verbatim>\<open>user_id\<close> from \<^verbatim>\<open>parts[0]\<close>, \<^verbatim>\<open>user_name\<close> from \<^verbatim>\<open>parts[1]\<close>, \<^verbatim>\<open>passcode\<close> from
      \<^verbatim>\<open>parts[2]\<close>, in this order\<close>
  "loop_fields parts =
     (case index parts 0 of
        Inl e \<Rightarrow> Inl e
      | Inr user_id_part \<Rightarrow>
          (case index parts 1 of
             Inl e \<Rightarrow> Inl e
           | Inr raw_name \<Rightarrow>
               (case index parts 2 of
                  Inl e \<Rightarrow> Inl e
                | Inr p2 \<Rightarrow>
                    Inr (replace ''User '' [] user_id_part, repair_name raw_name,
                         replace '' '' [] p2))))"

definition loop_body :: "seen_users \<Rightarrow> string \<Rightarrow> error + seen_users" where
  \<comment> \<open>lines 19-61\<close>
  "loop_body seen line =
     (let l = clean_line line in
      if prefix ''User '' l then
        (let parts = line_parts l in
         if length parts > 6 then
           (case loop_fields parts of
              Inl e \<Rightarrow> Inl e
            | Inr (user_id, user_name, passcode) \<Rightarrow>
                (let auth_val = auth_val_of parts
                 in if \<not> is_user_star user_name \<or> has_passcode passcode
                    then (if user_id \<notin> set (map fst seen)
                          then Inr (seen @ [(user_id, [user_name, passcode, auth_val])])
                          else Inr seen)
                    else Inr seen))
         else Inr seen)
      else Inr seen)"

fun loop :: "seen_users \<Rightarrow> string list \<Rightarrow> error + seen_users" where
  \<comment> \<open>lines 18-61: the loop over the lines, left at the first error\<close>
  "loop seen [] = Inr seen"
| "loop seen (line # lines) =
     (case loop_body seen line of Inl e \<Rightarrow> Inl e | Inr seen' \<Rightarrow> loop seen' lines)"

text \<open>
  The same without the error case (\<open>loop_body_process_line\<close> and \<open>loop_foldl\<close> below show
  that no index of the body is out of range, and that the loop gives these values): the
  decision on one line with \<^const>\<open>line_record\<close>, the body of the loop as a function from
  \<^verbatim>\<open>seen_users\<close> to \<^verbatim>\<open>seen_users\<close>, and the list that line 64 returns.
\<close>

definition process_line :: "seen_users \<Rightarrow> string \<Rightarrow> seen_users" where
  \<comment> \<open>the body of the loop of line 18, lines 19-61\<close>
  "process_line seen line =
     (case line_record line of
        None \<Rightarrow> seen
      | Some (user_id, rec) \<Rightarrow>
          if user_id \<notin> set (map fst seen) then seen @ [(user_id, rec)] else seen)"

definition parse_lines :: "string list \<Rightarrow> string list list" where
  \<comment> \<open>lines 16-64 on the lines of the opened file\<close>
  "parse_lines lines = map snd (foldl process_line [] lines)"

subsection \<open>The file\<close>

text \<open>
  The file system as the parser sees it: a path names nothing, something that is not a
  regular file, or a regular file that \<^verbatim>\<open>open\<close> can read or not. The content of a file
  is the list of its lines as the iteration of line 18 yields them, decoded.
\<close>

datatype node = Directory | Regular bool "string list"

type_synonym filesystem = "string \<Rightarrow> node option"

definition isfile :: "filesystem \<Rightarrow> string \<Rightarrow> bool" where
  \<comment> \<open>\<^verbatim>\<open>os.path.isfile\<close>\<close>
  "isfile fs path = (case fs path of Some (Regular _ _) \<Rightarrow> True | _ \<Rightarrow> False)"

definition parse_bosch_txt :: "filesystem \<Rightarrow> string \<Rightarrow> error + string list list" where
  \<comment> \<open>lines 11-64\<close>
  "parse_bosch_txt fs filepath =
     (if \<not> isfile fs filepath then Inl (ValueError ''Invalid file path'')
      else (case fs filepath of
              Some (Regular readable lines) \<Rightarrow>
                if readable
                then (case loop [] lines of
                        Inl e \<Rightarrow> Inl e
                      | Inr seen_users \<Rightarrow> Inr (map snd seen_users))
                else Inl PermissionError
            | _ \<Rightarrow> Inl (ValueError ''Invalid file path'')))"

text \<open>
  The deduplication of lines 60-61 on its own: a key that \<^verbatim>\<open>seen_users\<close> holds keeps
  its record, a new key goes to the end.
\<close>

definition keep_first :: "seen_users \<Rightarrow> string \<times> string list \<Rightarrow> seen_users" where
  "keep_first seen kv = (if fst kv \<notin> set (map fst seen) then seen @ [kv] else seen)"

section \<open>The renderer\<close>

subsection \<open>Library functions\<close>

definition html_escape :: "string \<Rightarrow> string" where
  \<comment> \<open>\<^verbatim>\<open>html.escape(s)\<close> with its default \<^verbatim>\<open>quote=True\<close>: five replacements, \<^verbatim>\<open>&\<close> first\<close>
  "html_escape s =
     replace [CHR 0x27] ''&#x27;''
       (replace [CHR 0x22] ''&quot;''
         (replace ''>'' ''&gt;''
           (replace ''<'' ''&lt;''
             (replace ''&'' ''&amp;'' s))))"

definition utf8_char :: "char \<Rightarrow> string" where
  \<comment> \<open>the UTF-8 form of a code point below 256: itself below 128, two bytes from 128 on\<close>
  "utf8_char c =
     (let n = (of_char c :: nat) in
      if n < 128 then [c] else [char_of (192 + n div 64), char_of (128 + n mod 64)])"

definition utf8 :: "string \<Rightarrow> string" where
  \<comment> \<open>\<^verbatim>\<open>s.encode("utf-8")\<close>, the bytes with which line 1131 writes the text\<close>
  "utf8 s = concat (map utf8_char s)"

definition hex_digit :: "nat \<Rightarrow> char" where
  "hex_digit n = (if n < 10 then char_of (48 + n) else char_of (87 + n))"

definition json_escape_char :: "char \<Rightarrow> string" where
  \<comment> \<open>the escapes of \<^verbatim>\<open>json.dumps\<close> with its default \<^verbatim>\<open>ensure_ascii=True\<close>: the quote, the
      backslash, the five short escapes, and \<^verbatim>\<open>\u00XX\<close> (four hexadecimal digits of the code
      point, small letters) for every other character outside \<^verbatim>\<open>' '..'~'\<close>\<close>
  "json_escape_char c =
     (let n = (of_char c :: nat) in
      if c = CHR 0x22 then [CHR 0x5C, CHR 0x22]
      else if c = CHR 0x5C then [CHR 0x5C, CHR 0x5C]
      else if c = CHR 0x0A then [CHR 0x5C, CHR ''n'']
      else if c = CHR 0x0D then [CHR 0x5C, CHR ''r'']
      else if c = CHR 0x09 then [CHR 0x5C, CHR ''t'']
      else if c = CHR 0x08 then [CHR 0x5C, CHR ''b'']
      else if c = CHR 0x0C then [CHR 0x5C, CHR ''f'']
      else if 32 \<le> n \<and> n \<le> 126 then [c]
      else [CHR 0x5C, CHR ''u'', CHR ''0'', CHR ''0'', hex_digit (n div 16), hex_digit (n mod 16)])"

definition json_dumps :: "string \<Rightarrow> string" where
  \<comment> \<open>\<^verbatim>\<open>json.dumps(s)\<close> of a string\<close>
  "json_dumps s = [CHR 0x22] @ concat (map json_escape_char s) @ [CHR 0x22]"

text \<open>
  \<^verbatim>\<open>datetime.now()\<close> is the one thing \<^verbatim>\<open>generate_html\<close> reads that is not an argument;
  the model takes it as the argument \<open>now\<close>.
\<close>

record datetime =
  year :: nat
  month :: nat
  day :: nat
  hour :: nat
  minute :: nat
  second :: nat

definition month_abbr :: "nat \<Rightarrow> string" where
  \<comment> \<open>\<^verbatim>\<open>%b\<close> in the C locale; a \<^verbatim>\<open>datetime\<close> has its month in \<open>1..12\<close>\<close>
  "month_abbr m =
     (if 1 \<le> m \<and> m \<le> 12
      then [''Jan'', ''Feb'', ''Mar'', ''Apr'', ''May'', ''Jun'',
            ''Jul'', ''Aug'', ''Sep'', ''Oct'', ''Nov'', ''Dec''] ! (m - 1)
      else [])"

definition strftime_b_d_Y :: "datetime \<Rightarrow> string" where
  \<comment> \<open>\<^verbatim>\<open>strftime('%b %d, %Y')\<close>: the day with two digits, the year as it is written from
      the year 1000 on\<close>
  "strftime_b_d_Y t =
     month_abbr (month t) @ '' '' @ (if day t < 10 then ''0'' else []) @ str_nat (day t) @ '', ''
       @ str_nat (year t)"

subsection \<open>The text of the templates\<close>

text \<open>
  The three f-strings of \<^verbatim>\<open>generate_html\<close> are cut at their replacement fields; the
  text between the fields is kept character by character, with \<^verbatim>\<open>{{\<close> and \<^verbatim>\<open>}}\<close> read
  as the braces they stand for. Long texts are given in parts.
\<close>

text \<open>Lines 122-134, one table row: the text before the name, between name and passcode,
  between passcode and options, and after the options.\<close>

definition row_open :: string where
  \<open>row_open =
''
        <tr>
            <td class="editable-cell" contenteditable=\'true\'>''\<close>

definition row_between :: string where
  \<open>row_between =
''</td>
            <td class="editable-cell passcode-cell" contenteditable=\'true\'>''\<close>

definition row_select :: string where
  \<open>row_select =
''</td>
            <td class="auth-cell">
                <select class="auth-select" onchange="markModified(this)">
                    ''\<close>

definition row_close :: string where
  \<open>row_close =
''
                </select>
            </td>
            <td class="action-cell">
                <button class="delete-btn" onclick=\'deleteRow(this)\'>Remove</button>
            </td>
        </tr>''\<close>

text \<open>Lines 142-145, the logo: the text before the mime type, between mime type and image data, and after the image data.\<close>

definition logo_open :: string where
  \<open>logo_open =
''
    <div class="header-logo">
        <img src=\'data:image/''\<close>

definition logo_base64 :: string where
  \<open>logo_base64 =
'';base64,''\<close>

definition logo_close :: string where
  \<open>logo_close =
''\' alt="Company Logo">
    </div>''\<close>

text \<open>Lines 148-732 of \<^verbatim>\<open>html_content\<close>: the head, the style sheet and the login form, up to the logo.\<close>

definition html_head_01 :: string where
  \<open>html_head_01 =
''<!DOCTYPE html>
<html>
<head>
<meta charset="UTF-8">
<meta name="viewport" content="width=device-width, initial-scale=1.0">
<meta http-equiv="Content-Security-Policy" content="default-src \'self\' data:; script-src \'unsafe-inline\'; style-src \'unsafe-inline\';">
<title>Security System Passcode Manager</title>
<style>
* {
    margin: 0;
    padding: 0;
    box-sizing: border-box;
}

body {
    font-family: \'Inter\', -apple-system, BlinkMacSystemFont, \'Segoe UI\', Roboto, sans-serif;
    background: #0a0e27;
''\<close>

definition html_head_02 :: string where
  \<open>html_head_02 =
''    min-height: 100vh;
    color: #64748b;
}

/* Login Screen */
#loginDiv {
    background: #ffffff;
    border-radius: 8px;
    box-shadow: 0 4px 6px rgba(0, 0, 0, 0.07);
    padding: 48px;
    max-width: 420px;
    margin: 120px auto;
    border: 1px solid #e2e8f0;
}

.login-header {
    text-align: center;
    margin-bottom: 32px;
}

.security-badge {
    width: 48px;
    height: 48px;
    background: #0f172a;
    border-radius: 12px;
    display: flex;
    align-items: center;
    justify-content: center;
''\<close>

definition html_head_03 :: string where
  \<open>html_head_03 =
''    margin: 0 auto 16px;
}

.security-badge::before {
    content: "";
    width: 24px;
    height: 24px;
    border: 3px solid #3b82f6;
    border-radius: 50%;
    border-top-color: transparent;
}

#loginDiv h2 {
    color: #0f172a;
    font-size: 24px;
    font-weight: 600;
    letter-spacing: -0.025em;
}

.login-subtitle {
    color: #64748b;
    font-size: 14px;
    margin-top: 8px;
}

#pwdInput {
    width: 100%;
    padding: 12px 16px;
    border: 1px solid #e2e8f0;
    border-radius: 6px;
''\<close>

definition html_head_04 :: string where
  \<open>html_head_04 =
''    font-size: 15px;
    margin-bottom: 24px;
    transition: all 0.2s;
    background: #f8fafc;
}

#pwdInput:focus {
    outline: none;
    border-color: #3b82f6;
    background: #ffffff;
    box-shadow: 0 0 0 3px rgba(59, 130, 246, 0.1);
}

.submit-btn {
    background: #0f172a;
    color: white;
    border: none;
    padding: 12px 24px;
    border-radius: 6px;
    font-size: 15px;
    font-weight: 500;
    cursor: pointer;
    transition: all 0.2s;
    width: 100%;
}

.submit-btn:hover {
''\<close>

definition html_head_05 :: string where
  \<open>html_head_05 =
''    background: #1e293b;
    transform: translateY(-1px);
    box-shadow: 0 4px 12px rgba(0, 0, 0, 0.15);
}

/* Main Content */
#mainContent {
    background: #ffffff;
    min-height: 100vh;
    padding: 0;
}

.app-header {
    background: #0f172a;
    padding: 24px 32px;
    border-bottom: 1px solid #1e293b;
}

.header-content {
    max-width: 1400px;
    margin: 0 auto;
    display: flex;
    justify-content: space-between;
    align-items: center;
}

.header-left {
    display: flex;
    align-items: center;
''\<close>

definition html_head_06 :: string where
  \<open>html_head_06 =
''    gap: 24px;
}

.header-logo img {
    max-height: 40px;
    height: auto;
}

.app-title {
    color: #ffffff;
    font-size: 20px;
    font-weight: 600;
    letter-spacing: -0.025em;
}

.header-stats {
    display: flex;
    gap: 32px;
}

.stat-item {
    color: #94a3b8;
    font-size: 14px;
}

.stat-value {
    color: #ffffff;
    font-weight: 600;
    margin-left: 8px;
}

.main-container {
    max-width: 1400px;
    margin: 0 auto;
    padding: 32px;
}

/* Action Bar */
.action-bar {
    background: #f8fafc;
''\<close>

definition html_head_07 :: string where
  \<open>html_head_07 =
''    border: 1px solid #e2e8f0;
    border-radius: 8px;
    padding: 20px 24px;
    margin-bottom: 24px;
    display: flex;
    justify-content: space-between;
    align-items: center;
}

.action-buttons {
    display: flex;
    gap: 12px;
}

.action-btn {
    background: #ffffff;
    color: #475569;
    border: 1px solid #e2e8f0;
    padding: 8px 16px;
    border-radius: 6px;
    font-size: 14px;
    font-weight: 500;
    cursor: pointer;
    transition: all 0.2s;
    display: flex;
    align-items: center;
''\<close>

definition html_head_08 :: string where
  \<open>html_head_08 =
''    gap: 8px;
}

.action-btn:hover {
    background: #f1f5f9;
    border-color: #cbd5e1;
}

.action-btn.primary {
    background: #3b82f6;
    color: white;
    border-color: #3b82f6;
}

.action-btn.primary:hover {
    background: #2563eb;
    border-color: #2563eb;
}

/* Instructions Indicator */
.instructions-indicator {
    position: relative;
    display: inline-flex;
    align-items: center;
    gap: 8px;
    margin-left: auto;
    margin-right: 16px;
}

.help-icon {
    width: 20px;
    height: 20px;
''\<close>

definition html_head_09 :: string where
  \<open>html_head_09 =
''    background: #3b82f6;
    color: white;
    border-radius: 50%;
    display: flex;
    align-items: center;
    justify-content: center;
    font-size: 14px;
    font-weight: bold;
    cursor: help;
}

.help-text {
    color: #64748b;
    font-size: 14px;
    font-weight: 500;
}

.instructions-tooltip {
    position: absolute;
    top: 100%;
    right: 0;
    margin-top: 8px;
    background: #0f172a;
    color: white;
    padding: 16px;
    border-radius: 8px;
    box-shadow: 0 10px 25px rgba(0, 0, 0, 0.2);
''\<close>

definition html_head_10 :: string where
  \<open>html_head_10 =
''    width: 320px;
    z-index: 1000;
    opacity: 0;
    visibility: hidden;
    transition: opacity 0.3s, visibility 0.3s;
    font-size: 13px;
    line-height: 1.6;
}

.instructions-indicator:hover .instructions-tooltip {
    opacity: 1;
    visibility: visible;
}

.instructions-tooltip::before {
    content: "";
    position: absolute;
    bottom: 100%;
    right: 20px;
    border-width: 8px;
    border-style: solid;
    border-color: transparent transparent #0f172a transparent;
}

.instructions-tooltip h4 {
''\<close>

definition html_head_11 :: string where
  \<open>html_head_11 =
''    margin: 0 0 12px 0;
    font-size: 14px;
    font-weight: 600;
    color: #f1f5f9;
}

.instructions-tooltip ul {
    margin: 0;
    padding-left: 20px;
    list-style: none;
}

.instructions-tooltip li {
    margin-bottom: 8px;
    position: relative;
    padding-left: 16px;
}

.instructions-tooltip li::before {
    content: "'' @
[CHR 0xE2, CHR 0x80, CHR 0xA2] @
''";
    position: absolute;
    left: 0;
    color: #3b82f6;
}

/* Table Styles */
.table-container {
    background: #ffffff;
    border: 1px solid #e2e8f0;
    border-radius: 8px;
''\<close>

definition html_head_12 :: string where
  \<open>html_head_12 =
''    overflow: hidden;
}

table {
    width: 100%;
    border-collapse: collapse;
}

thead {
    background: #f8fafc;
    border-bottom: 1px solid #e2e8f0;
}

th {
    padding: 12px 24px;
    text-align: left;
    font-weight: 500;
    font-size: 12px;
    text-transform: uppercase;
    letter-spacing: 0.05em;
    color: #64748b;
}

td {
    padding: 16px 24px;
    border-bottom: 1px solid #f1f5f9;
    font-size: 14px;
    color: #0f172a;
}

tr:last-child td {
    border-bottom: none;
}

tr:hover {
''\<close>

definition html_head_13 :: string where
  \<open>html_head_13 =
''    background-color: #f8fafc;
}

.editable-cell {
    position: relative;
    cursor: text;
    transition: all 0.2s;
}

.editable-cell:focus {
    outline: none;
    background: #f0f9ff;
    box-shadow: inset 0 0 0 2px #3b82f6;
}

.passcode-cell {
    font-family: \'Monaco\', \'Courier New\', monospace;
    letter-spacing: 0.05em;
}

.auth-cell {
    font-weight: 500;
    color: #3b82f6;
}

.auth-select {
    width: 100%;
    padding: 4px 8px;
    border: 1px solid #e2e8f0;
    border-radius: 4px;
''\<close>

definition html_head_14 :: string where
  \<open>html_head_14 =
''    background: white;
    color: #3b82f6;
    font-size: 14px;
    font-weight: 500;
    cursor: pointer;
    transition: all 0.2s;
}

.auth-select:focus {
    outline: none;
    border-color: #3b82f6;
    box-shadow: 0 0 0 3px rgba(59, 130, 246, 0.1);
}

.auth-select:hover {
    border-color: #cbd5e1;
}

.deleted .auth-select {
    pointer-events: none;
    opacity: 0.5;
    background: #f8f8f8;
}

.action-cell {
    text-align: right;
}

/* Status Classes */
.modified {
    background-color: #fef3c7;
}

''\<close>

definition html_head_15 :: string where
  \<open>html_head_15 =
''.deleted {
    background-color: #fef2f2;
    position: relative;
}

.deleted::after {
    content: "DELETED";
    position: absolute;
    top: 50%;
    right: 150px;
    transform: translateY(-50%);
    background: #dc2626;
    color: white;
    font-size: 10px;
    padding: 2px 8px;
    border-radius: 3px;
    font-weight: 600;
    letter-spacing: 0.05em;
}

.deleted td {
    position: relative;
    color: #991b1b;
    opacity: 0.85;
}

.deleted td::after {
    content: "";
    position: absolute;
    left: 0;
''\<close>

definition html_head_16 :: string where
  \<open>html_head_16 =
''    top: 50%;
    width: 100%;
    height: 1px;
    background: #dc2626;
    opacity: 0.3;
}

.deleted .editable-cell {
    pointer-events: none;
    cursor: not-allowed;
}

.deleted .delete-btn {
    background: #059669;
    color: white;
    border-color: #059669;
}

.deleted .delete-btn:hover {
    background: #047857;
    border-color: #047857;
}

.restore-btn {
    background: #059669 !important;
    color: white !important;
    border-color: #059669 !important;
}

.restore-btn:hover {
''\<close>

definition html_head_17 :: string where
  \<open>html_head_17 =
''    background: #047857 !important;
    border-color: #047857 !important;
}

.added {
    background-color: #d1fae5;
    animation: fadeIn 0.3s ease;
}

@keyframes fadeIn {
    from { opacity: 0; transform: translateY(-10px); }
    to { opacity: 1; transform: translateY(0); }
}

/* Delete Button */
.delete-btn {
    background: transparent;
    color: #ef4444;
    border: 1px solid #fecaca;
    padding: 6px 12px;
    border-radius: 4px;
    font-size: 13px;
    cursor: pointer;
    transition: all 0.2s;
''\<close>

definition html_head_18 :: string where
  \<open>html_head_18 =
''    font-weight: 500;
}

.delete-btn:hover {
    background: #fef2f2;
    border-color: #ef4444;
}

/* Pagination */
.pagination {
    margin-top: 24px;
    display: flex;
    justify-content: center;
    gap: 8px;
    padding-top: 24px;
    border-top: 1px solid #e2e8f0;
}

.pagination button {
    min-width: 40px;
    height: 40px;
    padding: 0 12px;
    border: 1px solid #e2e8f0;
    background: white;
    color: #475569;
    border-radius: 6px;
    cursor: pointer;
    font-size: 14px;
    font-weight: 500;
''\<close>

definition html_head_19 :: string where
  \<open>html_head_19 =
''    transition: all 0.2s;
}

.pagination button:hover {
    background: #f8fafc;
    border-color: #cbd5e1;
}

.pagination button.active {
    background: #0f172a;
    color: white;
    border-color: #0f172a;
}

/* Responsive Design */
@media (max-width: 768px) {
    .main-container {
        padding: 16px;
    }
    
    .action-bar {
        flex-direction: column;
        gap: 16px;
    }
    
    .action-buttons {
        width: 100%;
        flex-direction: column;
    }
    
    .action-btn {
''\<close>

definition html_head_20 :: string where
  \<open>html_head_20 =
''        width: 100%;
        justify-content: center;
    }
    
    th, td {
        padding: 12px;
        font-size: 13px;
    }
    
    .header-content {
        flex-direction: column;
        gap: 16px;
        text-align: center;
    }
}
</style>
</head>
<body>
<div id="loginDiv">
  <div class="login-header">
    <div class="security-badge"></div>
    <h2>Authentication Required</h2>
    <div class="login-subtitle">Enter your credentials to access the system</div>
  </div>
''\<close>

definition html_head_21 :: string where
  \<open>html_head_21 =
''  <input type="password" id="pwdInput" placeholder="Enter password">
  <button class="submit-btn" onclick="checkPassword()">Authenticate</button>
</div>
<div id="mainContent" style="display:none;">
  <div class="app-header">
    <div class="header-content">
      <div class="header-left">
        ''\<close>

definition html_head :: string where
  "html_head =
     html_head_01 @ html_head_02 @ html_head_03 @ html_head_04 @ html_head_05 @
     html_head_06 @ html_head_07 @ html_head_08 @ html_head_09 @ html_head_10 @
     html_head_11 @ html_head_12 @ html_head_13 @ html_head_14 @ html_head_15 @
     html_head_16 @ html_head_17 @ html_head_18 @ html_head_19 @ html_head_20 @
     html_head_21"

text \<open>Lines 732-737: from the logo to the date of generation.\<close>

definition html_after_logo :: string where
  \<open>html_after_logo =
''
        <div class="app-title">Security System Passcode Manager</div>
      </div>
      <div class="header-stats">
        <div class="stat-item">
          Report Generated<span class="stat-value">''\<close>

text \<open>Lines 737-740: from the date to the number of users.\<close>

definition html_after_date :: string where
  \<open>html_after_date =
''</span>
        </div>
        <div class="stat-item">
          Total Users<span class="stat-value" id="userCount">''\<close>

text \<open>Lines 740-780: from the number of users to the table rows.\<close>

definition html_after_count_01 :: string where
  \<open>html_after_count_01 =
''</span>
        </div>
      </div>
    </div>
  </div>
  <div class="main-container">
    <div class="action-bar">
      <div class="action-buttons">
        <button class="action-btn primary" onclick="addRow()">Add User</button>
        <button class="action-btn" onclick="exportHTML()">Export Report</button>
      </div>
      <div class="instructions-indicator">
        <span class="help-text">Instructions</span>
        <div class="help-icon">?</div>
        <div class="instructions-tooltip">
''\<close>

definition html_after_count_02 :: string where
  \<open>html_after_count_02 =
''          <h4>How to Use This Report</h4>
          <ul>
            <li><strong>Edit Users:</strong> Click any cell to edit directly</li>
            <li><strong>Add Users:</strong> Click "Add User" to create a new entry</li>
            <li><strong>Remove Users:</strong> Click "Remove" to mark for deletion</li>
            <li><strong>Restore Users:</strong> Click "Restore" on deleted entries</li>
            <li><strong>Save Changes:</strong> Click "Export Report" to download with all modifications</li>
''\<close>

definition html_after_count_03 :: string where
  \<open>html_after_count_03 =
''          </ul>
          <div style="margin-top: 12px; padding-top: 12px; border-top: 1px solid #334155; color: #94a3b8; font-size: 12px;">
            <strong>Note:</strong> Changes are only saved when you export the report.
          </div>
        </div>
      </div>
    </div>
    <div class="table-container">
      <table id="dataTable">
        <thead>
          <tr>
            <th>User Name</th>
            <th>Passcode</th>
            <th>Authority Level</th>
            <th>Actions</th>
          </tr>
''\<close>

definition html_after_count_04 :: string where
  \<open>html_after_count_04 =
''        </thead>
        <tbody>
          ''\<close>

definition html_after_count :: string where
  "html_after_count =
     html_after_count_01 @ html_after_count_02 @ html_after_count_03 @
     html_after_count_04"

text \<open>Lines 780-788: from the table rows to the value of \<^verbatim>\<open>PASSWORD\<close>.\<close>

definition html_after_rows :: string where
  \<open>html_after_rows =
''
        </tbody>
      </table>
    </div>
    <div class="pagination" id="pagination"></div>
  </div>
</div>
<script>
let PASSWORD = ''\<close>

text \<open>Lines 788-995: the script after the value of \<^verbatim>\<open>PASSWORD\<close>.\<close>

definition html_script_01 :: string where
  \<open>html_script_01 =
'';
let currentPage = 1;
const rowsPerPage = 50;
const table = document.getElementById("dataTable").getElementsByTagName("tbody")[0];

function checkPassword() {
  let input = document.getElementById("pwdInput").value;
  if (input === PASSWORD) {
    document.getElementById("loginDiv").style.display = "none";
    document.getElementById("mainContent").style.display = "block";
    paginateTable();
    updateUserCount();
  } else {
    alert("Incorrect password. Please try again.");
''\<close>

definition html_script_02 :: string where
  \<open>html_script_02 =
''    document.getElementById("pwdInput").value = "";
  }
}


function updateUserCount() {
  const allRows = Array.from(table.rows);
  const activeRows = allRows.filter(row => !row.classList.contains("deleted"));
  const deletedRows = allRows.filter(row => row.classList.contains("deleted"));
  
  // Update the count to show active users
  document.getElementById("userCount").textContent = activeRows.length;
  
  // Optionally show deleted count in header
  let deletedInfo = document.getElementById("deletedCount");
''\<close>

definition html_script_03 :: string where
  \<open>html_script_03 =
''  if (!deletedInfo && deletedRows.length > 0) {
    let statsDiv = document.querySelector(".header-stats");
    let deletedStat = document.createElement("div");
    deletedStat.className = "stat-item";
    deletedStat.innerHTML = `Marked for Deletion<span class="stat-value" id="deletedCount" style="color: #ef4444;">${deletedRows.length}</span>`;
    statsDiv.appendChild(deletedStat);
  } else if (deletedInfo) {
    if (deletedRows.length > 0) {
      deletedInfo.textContent = deletedRows.length;
    } else {
''\<close>

definition html_script_04 :: string where
  \<open>html_script_04 =
''      deletedInfo.parentElement.remove();
    }
  }
}

function paginateTable() {
  const rows = Array.from(table.rows); // Include ALL rows, including deleted
  const totalPages = Math.ceil(rows.length / rowsPerPage);
  
  // Hide all rows first
  rows.forEach(row => row.style.display = "none");
  
  // Show rows for current page (including deleted ones)
  const start = (currentPage - 1) * rowsPerPage;
  const end = start + rowsPerPage;
  rows.slice(start, end).forEach(row => row.style.display = "");
  
''\<close>

definition html_script_05 :: string where
  \<open>html_script_05 =
''  // Update pagination buttons
  let pagDiv = document.getElementById("pagination");
  pagDiv.innerHTML = "";
  
  if (totalPages > 1) {
    for (let i = 1; i <= totalPages; i++) {
      let btn = document.createElement("button");
      btn.textContent = i;
      if (i === currentPage) btn.classList.add("active");
      btn.onclick = () => { 
        currentPage = i; 
        paginateTable(); 
      };
      pagDiv.appendChild(btn);
    }
  }
}

function deleteRow(btn) {
  let row = btn.parentNode.parentNode;
  
''\<close>

definition html_script_06 :: string where
  \<open>html_script_06 =
''  if (row.classList.contains("deleted")) {
    // Restore the row
    row.classList.remove("deleted");
    btn.textContent = "Remove";
    btn.classList.remove("restore-btn");
    
    // Re-enable editing
    let cells = row.querySelectorAll(".editable-cell");
    cells.forEach(cell => {
      cell.contentEditable = "true";
    });
    
    // Re-enable auth dropdown
    let authSelect = row.querySelector(".auth-select");
    if (authSelect) {
      authSelect.disabled = false;
    }
  } else {
''\<close>

definition html_script_07 :: string where
  \<open>html_script_07 =
''    // Mark as deleted
    if (confirm("Mark this user for deletion?")) {
      row.classList.add("deleted");
      btn.textContent = "Restore";
      btn.classList.add("restore-btn");
      
      // Disable editing on deleted rows
      let cells = row.querySelectorAll(".editable-cell");
      cells.forEach(cell => {
        cell.contentEditable = "false";
      });
      
      // Disable auth dropdown
      let authSelect = row.querySelector(".auth-select");
      if (authSelect) {
''\<close>

definition html_script_08 :: string where
  \<open>html_script_08 =
''        authSelect.disabled = true;
      }
    }
  }
  
  updateUserCount();
  paginateTable();
}

function markModified(element) {
  let row = element.closest("tr");
  if (!row.classList.contains("deleted")) {
    row.classList.add("modified");
  }
}

function addRow() {
  let row = table.insertRow();
  row.classList.add("added");
  
  // Add name cell
  let nameCell = row.insertCell();
  nameCell.classList.add("editable-cell");
  nameCell.contentEditable = "true";
  nameCell.textContent = "";
''\<close>

definition html_script_09 :: string where
  \<open>html_script_09 =
''  nameCell.addEventListener("input", function() {
    if (!this.parentNode.classList.contains("deleted")) {
      this.parentNode.classList.add("modified");
    }
  });
  
  // Add passcode cell
  let passcodeCell = row.insertCell();
  passcodeCell.classList.add("editable-cell", "passcode-cell");
  passcodeCell.contentEditable = "true";
  passcodeCell.textContent = "";
  passcodeCell.addEventListener("input", function() {
    if (!this.parentNode.classList.contains("deleted")) {
''\<close>

definition html_script_10 :: string where
  \<open>html_script_10 =
''      this.parentNode.classList.add("modified");
    }
  });
  
  // Add authority cell with dropdown
  let authCell = row.insertCell();
  authCell.classList.add("auth-cell");
  let selectHtml = `<select class="auth-select" onchange="markModified(this)">
    <option value="None" selected>None</option>`;
  for (let level = 1; level <= 8; level++) {
    selectHtml += `<option value="A${level}">A${level}</option>`;
  }
  selectHtml += `</select>`;
  authCell.innerHTML = selectHtml;
  
  // Add action cell
''\<close>

definition html_script_11 :: string where
  \<open>html_script_11 =
''  let actionCell = row.insertCell();
  actionCell.classList.add("action-cell");
  actionCell.innerHTML = `<button class="delete-btn" onclick=\'deleteRow(this)\'>Remove</button>`;
  
  updateUserCount();
  paginateTable();
  
  // Focus on first cell of new row
  row.cells[0].focus();
}

// Add event listeners to existing editable cells
document.addEventListener("DOMContentLoaded", function() {
  document.querySelectorAll(".editable-cell").forEach(cell => {
    cell.addEventListener("input", function() {
''\<close>

definition html_script_12 :: string where
  \<open>html_script_12 =
''      if (!this.parentNode.classList.contains("deleted")) {
        this.parentNode.classList.add("modified");
      }
    });
  });
});

function exportHTML() {
  if (confirm("Export the current report with all changes?")) {
    let html = document.documentElement.outerHTML;
    let blob = new Blob([html], {type: "text/html"});
    let a = document.createElement("a");
    a.href = URL.createObjectURL(blob);
    a.download = "Bosch_Report_" + new Date().toISOString().slice(0,10) + ".html";
    a.click();
''\<close>

definition html_script_13 :: string where
  \<open>html_script_13 =
''    alert("Report exported successfully!");
  }
}

// Add keyboard shortcut for password entry
document.getElementById("pwdInput")?.addEventListener("keypress", function(e) {
  if (e.key === "Enter") {
    checkPassword();
  }
});
</script>
</body>
</html>
''\<close>

definition html_script :: string where
  "html_script =
     html_script_01 @ html_script_02 @ html_script_03 @ html_script_04 @
     html_script_05 @ html_script_06 @ html_script_07 @ html_script_08 @
     html_script_09 @ html_script_10 @ html_script_11 @ html_script_12 @ html_script_13"


subsection \<open>The table rows\<close>

definition auth_num_of :: "string \<Rightarrow> string" where
  \<comment> \<open>lines 110-114\<close>
  "auth_num_of auth_value =
     (if prefix ''A'' auth_value \<and> length auth_value = 2 \<and> isdigit [auth_value ! 1]
      then [auth_value ! 1] else ''None'')"

definition auth_option :: "string \<Rightarrow> nat \<Rightarrow> string" where
  \<comment> \<open>lines 119-120\<close>
  "auth_option auth_num level =
     (let selected = (if str_nat level = auth_num then '' selected'' else [])
      in ''<option value=\"A'' @ str_nat level @ ''\"'' @ selected @ ''>A'' @ str_nat level
           @ ''</option>'')"

definition auth_options :: "string \<Rightarrow> string list" where
  \<comment> \<open>lines 117-120\<close>
  "auth_options auth_num =
     (''<option value=\"None\"'' @ (if auth_num = ''None'' then '' selected'' else []) @ ''>None</option>'')
       # map (auth_option auth_num) [1..<9]"

text \<open>
  \<^verbatim>\<open>generate_html\<close> returns a \<^verbatim>\<open>str\<close>, which line 1131 writes in UTF-8. The model gives
  these bytes: the text of the templates is kept in its UTF-8 form, the options, the
  date, the number of users and the JSON of the secret are ASCII, and the escaped name,
  the escaped passcode and the image data go through \<^const>\<open>utf8\<close>.
\<close>

definition table_row :: "string list \<Rightarrow> error + string" where
  \<comment> \<open>lines 109-134 for one row; \<^verbatim>\<open>row[2]\<close> is read first and raises on a row of fewer
      than three fields\<close>
  "table_row row =
     (if length row < 3 then Inl IndexError
      else Inr (row_open @ utf8 (html_escape (row ! 0)) @ row_between
                  @ utf8 (html_escape (row ! 1)) @ row_select
                  @ concat (auth_options (auth_num_of (row ! 2))) @ row_close))"

fun table_rows :: "string list list \<Rightarrow> error + string" where
  \<comment> \<open>lines 107-134: the loop that appends to \<^verbatim>\<open>table_rows\<close>\<close>
  "table_rows [] = Inr []"
| "table_rows (row # data) =
     (case table_row row of
        Inl e \<Rightarrow> Inl e
      | Inr r \<Rightarrow> (case table_rows data of Inl e \<Rightarrow> Inl e | Inr rs \<Rightarrow> Inr (r @ rs)))"

subsection \<open>The document\<close>

definition logo_html :: "(string \<times> string) option \<Rightarrow> string" where
  \<comment> \<open>lines 137-145\<close>
  "logo_html logo_data =
     (case logo_data of
        None \<Rightarrow> []
      | Some (logo_b64, mime_type) \<Rightarrow>
          if mime_type \<in> set [''png'', ''jpeg'', ''gif'', ''webp'']
          then logo_open @ mime_type @ logo_base64 @ utf8 logo_b64 @ logo_close
          else [])"

definition html_content ::
  "datetime \<Rightarrow> nat \<Rightarrow> string \<Rightarrow> string \<Rightarrow> (string \<times> string) option \<Rightarrow> string" where
  \<comment> \<open>lines 148-995: the template with its five replacement fields\<close>
  "html_content now len_data rows password logo_data =
     html_head @ (if logo_data \<noteq> None then logo_html logo_data else [])
       @ html_after_logo @ strftime_b_d_Y now
       @ html_after_date @ str_nat len_data
       @ html_after_count @ rows
       @ html_after_rows @ (if password \<noteq> [] then json_dumps password else [CHR 0x22, CHR 0x22])
       @ html_script"

definition generate_html ::
  "datetime \<Rightarrow> string list list \<Rightarrow> string \<Rightarrow> (string \<times> string) option \<Rightarrow> error + string" where
  "generate_html now data password logo_data =
     (case table_rows data of
        Inl e \<Rightarrow> Inl e
      | Inr rows \<Rightarrow> Inr (html_content now (length data) rows password logo_data))"

section \<open>The rows of the opened report\<close>

text \<open>
  The script of the report keeps the state of a row in the row itself: the classes
  \<^verbatim>\<open>modified\<close>, \<^verbatim>\<open>added\<close> and \<^verbatim>\<open>deleted\<close> of the \<^verbatim>\<open>tr\<close> element, the text of its two editable
  cells, the value of its \<^verbatim>\<open>select\<close>, and what the delete action sets on its cells and its
  button. A report is its rows, the current page and what the two counters and the
  pagination bar show. An action names its row by the index of the row in the table.
\<close>

record row =
  cell_name :: string
  cell_passcode :: string
  select_value :: string
  cls_modified :: bool
  cls_added :: bool
  cls_deleted :: bool
  content_editable :: bool
  select_disabled :: bool
  btn_text :: string
  btn_restore :: bool
  display_none :: bool

record report =
  tbody_rows :: "row list"
  currentPage :: nat
  userCount :: nat
  deletedCount :: "nat option"
  page_buttons :: nat

definition rowsPerPage :: nat where
  "rowsPerPage = 50"

definition updateUserCount :: "report \<Rightarrow> report" where
  \<comment> \<open>lines 807-830; \<open>deletedCount\<close> is the second counter, \<open>None\<close> while it is not in the page\<close>
  "updateUserCount d =
     (let activeRows = filter (\<lambda>r. \<not> cls_deleted r) (tbody_rows d);
          deletedRows = filter cls_deleted (tbody_rows d);
          d1 = d\<lparr>userCount := length activeRows\<rparr>
      in if deletedCount d = None \<and> length deletedRows > 0
         then d1\<lparr>deletedCount := Some (length deletedRows)\<rparr>
         else if deletedCount d \<noteq> None
         then (if length deletedRows > 0 then d1\<lparr>deletedCount := Some (length deletedRows)\<rparr>
               else d1\<lparr>deletedCount := None\<rparr>)
         else d1)"

definition paginateTable :: "report \<Rightarrow> report" where
  \<comment> \<open>lines 832-860: all rows, deleted ones too, count for the pages; \<^verbatim>\<open>currentPage\<close> is 1
      or the number of a page button\<close>
  "paginateTable d =
     (let n = length (tbody_rows d);
          totalPages = (n + rowsPerPage - 1) div rowsPerPage;
          start = (currentPage d - 1) * rowsPerPage;
          end_row = start + rowsPerPage
      in d\<lparr>tbody_rows := map (\<lambda>(i, r). r\<lparr>display_none := \<not> (start \<le> i \<and> i < end_row)\<rparr>)
                       (zip [0..<n] (tbody_rows d)),
            page_buttons := (if totalPages > 1 then totalPages else 0)\<rparr>)"

definition toggle_deleted :: "bool \<Rightarrow> row \<Rightarrow> row" where
  \<comment> \<open>lines 865-901: what \<^verbatim>\<open>deleteRow\<close> does to its row; \<open>confirm\<close> is the answer to the prompt
      of line 884, which is asked only when the row is not deleted\<close>
  "toggle_deleted confirm r =
     (if cls_deleted r
      then r\<lparr>cls_deleted := False, btn_text := ''Remove'', btn_restore := False,
              content_editable := True, select_disabled := False\<rparr>
      else if confirm
      then r\<lparr>cls_deleted := True, btn_text := ''Restore'', btn_restore := True,
              content_editable := False, select_disabled := True\<rparr>
      else r)"

definition deleteRow :: "bool \<Rightarrow> nat \<Rightarrow> report \<Rightarrow> report" where
  \<comment> \<open>lines 862-905, for the button of row \<open>i\<close>\<close>
  "deleteRow confirm i d =
     (if i < length (tbody_rows d)
      then paginateTable (updateUserCount (d\<lparr>tbody_rows := (tbody_rows d)[i := toggle_deleted confirm (tbody_rows d ! i)]\<rparr>))
      else d)"

definition add_modified :: "row \<Rightarrow> row" where
  \<comment> \<open>\<^verbatim>\<open>markModified\<close> (lines 907-912) and the \<^verbatim>\<open>input\<close> listeners (lines 923-927, 934-938,
      966-970): the class \<^verbatim>\<open>modified\<close>, unless the row is deleted\<close>
  "add_modified r = (if \<not> cls_deleted r then r\<lparr>cls_modified := True\<rparr> else r)"

datatype field = Name | Passcode | Authority

definition edit_row :: "field \<Rightarrow> string \<Rightarrow> row \<Rightarrow> row" where
  \<comment> \<open>the user gives a field a new value: possible in a cell that is editable and in a
      \<^verbatim>\<open>select\<close> that is not disabled, and followed by the listener of the field\<close>
  "edit_row f v r =
     (case f of
        Name \<Rightarrow> if content_editable r then add_modified (r\<lparr>cell_name := v\<rparr>) else r
      | Passcode \<Rightarrow> if content_editable r then add_modified (r\<lparr>cell_passcode := v\<rparr>) else r
      | Authority \<Rightarrow> if \<not> select_disabled r then add_modified (r\<lparr>select_value := v\<rparr>) else r)"

definition edit :: "field \<Rightarrow> string \<Rightarrow> nat \<Rightarrow> report \<Rightarrow> report" where
  "edit f v i d = (if i < length (tbody_rows d) then d\<lparr>tbody_rows := (tbody_rows d)[i := edit_row f v (tbody_rows d ! i)]\<rparr> else d)"

definition new_row :: row where
  \<comment> \<open>lines 915-954: the row that \<^verbatim>\<open>addRow\<close> builds\<close>
  "new_row = \<lparr>cell_name = [], cell_passcode = [], select_value = ''None'',
              cls_modified = False, cls_added = True, cls_deleted = False,
              content_editable = True, select_disabled = False,
              btn_text = ''Remove'', btn_restore = False, display_none = False\<rparr>"

definition addRow :: "report \<Rightarrow> report" where
  \<comment> \<open>lines 914-961\<close>
  "addRow d = paginateTable (updateUserCount (d\<lparr>tbody_rows := tbody_rows d @ [new_row]\<rparr>))"

text \<open>The four states of the specification, read off the classes of a row.\<close>

datatype row_state = Normal | Modified | Deleted | Added

definition state_of :: "row \<Rightarrow> row_state" where
  "state_of r =
     (if cls_deleted r then Deleted
      else if cls_added r then Added
      else if cls_modified r then Modified
      else Normal)"

text \<open>A row as the markup of lines 122-134 gives it to the browser, and the report as it is loaded.\<close>

definition loaded_row :: "string list \<Rightarrow> row" where
  "loaded_row rec =
     \<lparr>cell_name = rec ! 0, cell_passcode = rec ! 1,
      select_value = (if auth_num_of (rec ! 2) \<in> set (map str_nat [1..<9]) then ''A'' @ auth_num_of (rec ! 2)
                      else ''None''),
      cls_modified = False, cls_added = False, cls_deleted = False,
      content_editable = True, select_disabled = False,
      btn_text = ''Remove'', btn_restore = False, display_none = False\<rparr>"

definition loaded_report :: "string list list \<Rightarrow> report" where
  \<comment> \<open>before the password is entered: page 1, the counter as line 740 wrote it\<close>
  "loaded_report data =
     \<lparr>tbody_rows = map loaded_row data, currentPage = 1, userCount = length data,
      deletedCount = None, page_buttons = 0\<rparr>"

section \<open>Notions used in the statements\<close>

definition html_entity :: "char \<Rightarrow> string" where
  \<comment> \<open>what an HTML-escaped text holds in the place of one character\<close>
  "html_entity c =
     (if c = CHR ''&'' then ''&amp;''
      else if c = CHR ''<'' then ''&lt;''
      else if c = CHR ''>'' then ''&gt;''
      else if c = CHR 0x22 then ''&quot;''
      else if c = CHR 0x27 then ''&#x27;''
      else [c])"

definition is_markup :: "char \<Rightarrow> bool" where
  \<comment> \<open>the characters that open and close a tag or an attribute value\<close>
  "is_markup c = (c = CHR ''<'' \<or> c = CHR ''>'' \<or> c = CHR 0x22 \<or> c = CHR 0x27)"

text \<open>
  The value of a JavaScript string literal in double quotes, as the script engine reads
  it: a backslash starts an escape (\<^verbatim>\<open>\u\<close> with four hexadecimal digits, or one of the
  single-character escapes), a line break or a second quote before the end is an error,
  and the closing quote ends the literal. \<open>None\<close> when the text is no such literal, or
  when it names a code point from 256 on.
\<close>

definition hex_value :: "char \<Rightarrow> nat option" where
  "hex_value c =
     (let n = (of_char c :: nat) in
      if 48 \<le> n \<and> n \<le> 57 then Some (n - 48)
      else if 97 \<le> n \<and> n \<le> 102 then Some (n - 87)
      else if 65 \<le> n \<and> n \<le> 70 then Some (n - 55)
      else None)"

definition js_escape :: "char \<Rightarrow> char option" where
  \<comment> \<open>the character that a backslash and \<open>e\<close> stand for\<close>
  "js_escape e =
     (if e = CHR 0x22 then Some (CHR 0x22)
      else if e = CHR 0x5C then Some (CHR 0x5C)
      else if e = CHR 0x27 then Some (CHR 0x27)
      else if e = CHR ''n'' then Some (CHR 0x0A)
      else if e = CHR ''r'' then Some (CHR 0x0D)
      else if e = CHR ''t'' then Some (CHR 0x09)
      else if e = CHR ''b'' then Some (CHR 0x08)
      else if e = CHR ''f'' then Some (CHR 0x0C)
      else if e = CHR ''v'' then Some (CHR 0x0B)
      else None)"

definition js_unicode_escape :: "char \<Rightarrow> char \<Rightarrow> char \<Rightarrow> char \<Rightarrow> char option" where
  \<comment> \<open>the character that \<^verbatim>\<open>\u\<close> and four hexadecimal digits stand for\<close>
  "js_unicode_escape a b c d =
     (case (hex_value a, hex_value b, hex_value c, hex_value d) of
        (Some h3, Some h2, Some h1, Some h0) \<Rightarrow>
          (let n = ((h3 * 16 + h2) * 16 + h1) * 16 + h0
           in if n < 256 then Some (char_of n) else None)
      | _ \<Rightarrow> None)"

fun js_chars :: "string \<Rightarrow> string option" where
  \<comment> \<open>the characters of the literal after its opening quote\<close>
  "js_chars [] = None"
| "js_chars (c # cs) =
     (if c = CHR 0x22 then (if cs = [] then Some [] else None)
      else if c = CHR 0x0A \<or> c = CHR 0x0D then None
      else if c = CHR 0x5C then
        (case cs of
           [] \<Rightarrow> None
         | e # rest \<Rightarrow>
             if e = CHR ''u'' then
               (case rest of
                  a # b # c' # d # rest' \<Rightarrow>
                    (case js_unicode_escape a b c' d of
                       None \<Rightarrow> None
                     | Some x \<Rightarrow> map_option ((#) x) (js_chars rest'))
                | _ \<Rightarrow> None)
             else (case js_escape e of
                     None \<Rightarrow> None
                   | Some x \<Rightarrow> map_option ((#) x) (js_chars rest)))
      else map_option ((#) c) (js_chars cs))"

definition js_string_value :: "string \<Rightarrow> string option" where
  "js_string_value s = (case s of [] \<Rightarrow> None | q # cs \<Rightarrow> if q = CHR 0x22 then js_chars cs else None)"

definition json_plain :: "char \<Rightarrow> bool" where
  \<comment> \<open>a printable ASCII character other than the quote and the backslash\<close>
  "json_plain c = (32 \<le> (of_char c :: nat) \<and> (of_char c :: nat) \<le> 126 \<and> c \<noteq> CHR 0x22 \<and> c \<noteq> CHR 0x5C)"

section \<open>Properties of the parser\<close>

subsection \<open>Deduplication\<close>

lemma process_line_keep_first:
  "process_line seen line = (case line_record line of None \<Rightarrow> seen | Some kv \<Rightarrow> keep_first seen kv)"
  by (simp add: process_line_def keep_first_def split: option.splits prod.splits)

lemma foldl_process_line:
  "foldl process_line seen lines = foldl keep_first seen (List.map_filter line_record lines)"
  by (induction lines arbitrary: seen)
     (simp_all add: process_line_keep_first List.map_filter_simps split: option.splits)

lemma keep_first_keys:
  "map fst (foldl keep_first [] kept) = rev (remdups (rev (map fst kept)))"
proof (induction kept rule: rev_induct)
  case Nil
  show ?case by simp
next
  case (snoc kv kept)
  let ?S = "foldl keep_first [] kept"
  have keys: "set (map fst ?S) = set (map fst kept)"
    unfolding snoc.IH by simp
  have step: "foldl keep_first [] (kept @ [kv]) = keep_first ?S kv"
    by simp
  show ?case
  proof (cases "fst kv \<in> set (map fst kept)")
    case True
    then have "keep_first ?S kv = ?S"
      unfolding keep_first_def keys by simp
    then show ?thesis
      unfolding step using True snoc.IH by simp
  next
    case False
    then have "keep_first ?S kv = ?S @ [kv]"
      unfolding keep_first_def keys by simp
    then show ?thesis
      unfolding step using False snoc.IH by simp
  qed
qed

lemma keep_first_distinct: "distinct (map fst (foldl keep_first [] kept))"
  by (simp add: keep_first_keys)

lemma keep_first_map_of:
  "map_of (foldl keep_first [] kept) = map_of kept"
proof (induction kept rule: rev_induct)
  case Nil
  show ?case by simp
next
  case (snoc kv kept)
  obtain k v where kv: "kv = (k, v)" by (cases kv)
  let ?S = "foldl keep_first [] kept"
  have keys: "set (map fst ?S) = set (map fst kept)"
    by (simp add: keep_first_keys)
  show ?case
  proof (cases "k \<in> set (map fst kept)")
    case True
    then have "k \<in> dom (map_of kept)"
      by (simp add: dom_map_of_conv_image_fst)
    then have "map_of (kept @ [kv]) = map_of kept"
      unfolding kv by (auto simp: map_add_def fun_eq_iff split: option.splits)
    moreover have "keep_first ?S kv = ?S"
      unfolding keep_first_def keys using True by (simp add: kv)
    then have "foldl keep_first [] (kept @ [kv]) = ?S"
      by simp
    ultimately show ?thesis using snoc.IH by simp
  next
    case False
    then have "keep_first ?S kv = ?S @ [kv]"
      unfolding keep_first_def keys by (simp add: kv)
    then have "foldl keep_first [] (kept @ [kv]) = ?S @ [kv]"
      by simp
    then show ?thesis using snoc.IH by simp
  qed
qed

lemma values_by_key:
  "distinct (map fst kvs) \<Longrightarrow> map snd kvs = map (\<lambda>k. the (map_of kvs k)) (map fst kvs)"
proof (induction kvs)
  case Nil
  show ?case by simp
next
  case (Cons kv kvs)
  obtain k v where kv: "kv = (k, v)" by (cases kv)
  from Cons.prems have "k \<notin> fst ` set kvs" and d: "distinct (map fst kvs)"
    by (simp_all add: kv)
  then have "map (\<lambda>x. the (map_of (kv # kvs) x)) (map fst kvs) = map (\<lambda>x. the (map_of kvs x)) (map fst kvs)"
    by (auto simp: kv)
  then show ?case using Cons.IH [OF d] by (simp add: kv)
qed

text \<open>
  Claim C2, amended: among the lines that reach line 60 (candidate lines with more than
  6 fields that pass the placeholder filter, \<^const>\<open>line_record\<close>), the first line of
  each id gives the record of that id, later lines of the id are discarded whatever
  they hold, and the records stand in the order in which their ids were first kept.
  (\<open>rev (remdups (rev ks))\<close> is \<open>ks\<close> without the repetitions of an earlier element;
  \<^const>\<open>map_of\<close> reads the first pair of a key.)
\<close>

theorem dedup_first_kept:
  "parse_lines lines =
     (let kept = List.map_filter line_record lines
      in map (\<lambda>user_id. the (map_of kept user_id)) (rev (remdups (rev (map fst kept)))))"
proof -
  let ?kept = "List.map_filter line_record lines"
  let ?S = "foldl keep_first [] ?kept"
  have "parse_lines lines = map snd ?S"
    by (simp add: parse_lines_def foldl_process_line)
  also have "\<dots> = map (\<lambda>k. the (map_of ?S k)) (map fst ?S)"
    by (rule values_by_key) (rule keep_first_distinct)
  also have "\<dots> = map (\<lambda>k. the (map_of ?kept k)) (rev (remdups (rev (map fst ?kept))))"
    by (simp only: keep_first_map_of keep_first_keys)
  finally show ?thesis by (simp add: Let_def)
qed

text \<open>
  Three kept lines, the third with the id of the first: the third is discarded, the
  output keeps the order of the first two.
\<close>

theorem dedup_first_kept_witness:
  "parse_lines [''User 1, Ann, 1111, x,x,1,0'', ''User 2, Bob, 2222, x,x,0,1'', ''User 1, Cy, 3333, x,x,0,0'']
     = [[''Ann'', ''1111'', ''A1''], [''Bob'', ''2222'', ''A2'']]"
proof -
  let ?ls = "[''User 1, Ann, 1111, x,x,1,0'', ''User 2, Bob, 2222, x,x,0,1'', ''User 1, Cy, 3333, x,x,0,0'']"
  have kept: "List.map_filter line_record ?ls =
     [(''1'', [''Ann'', ''1111'', ''A1'']), (''2'', [''Bob'', ''2222'', ''A2'']), (''1'', [''Cy'', ''3333'', ''None''])]"
    by code_simp
  show ?thesis
    unfolding dedup_first_kept [of ?ls] kept by simp
qed

text \<open>
  Claim C2 as stated fails: the placeholder filter of line 58 runs before the
  deduplication of line 60. Two lines carry the id \<open>7\<close>; the first is an unprovisioned
  placeholder and is dropped by the filter before its id is recorded, so the fields of
  the second line are the ones in the output.
\<close>

theorem later_line_survives_filtered_first:
  "prefix ''User '' (clean_line ''User 7, User 7, 0, x,x,0,0'') \<and>
   prefix ''User '' (clean_line ''User 7, Bob, 4821, x,x,1,0'') \<and>
   user_id_of (line_parts (clean_line ''User 7, User 7, 0, x,x,0,0'')) = ''7'' \<and>
   user_id_of (line_parts (clean_line ''User 7, Bob, 4821, x,x,1,0'')) = ''7'' \<and>
   line_record ''User 7, User 7, 0, x,x,0,0'' = None \<and>
   parse_lines [''User 7, User 7, 0, x,x,0,0'', ''User 7, Bob, 4821, x,x,1,0'']
     = [[''Bob'', ''4821'', ''A1'']]"
  by code_simp

subsection \<open>The placeholder filter\<close>

lemma parse_lines_single:
  "parse_lines [line] = (case line_record line of None \<Rightarrow> [] | Some (user_id, rec) \<Rightarrow> [rec])"
  by (simp add: parse_lines_def process_line_def split: option.splits)

lemma process_line_extends: "\<exists>ext. process_line seen line = seen @ ext"
  by (auto simp: process_line_def split: option.splits)

lemma foldl_process_line_extends: "\<exists>ext. foldl process_line seen lines = seen @ ext"
proof (induction lines arbitrary: seen)
  case Nil
  show ?case by simp
next
  case (Cons l lines)
  obtain e1 where e1: "process_line seen l = seen @ e1"
    using process_line_extends by blast
  obtain e2 where "foldl process_line (seen @ e1) lines = (seen @ e1) @ e2"
    using Cons.IH by blast
  then show ?case using e1 by simp
qed

lemma parse_lines_around:
  "parse_lines (before @ line # after) =
     map snd (foldl process_line (process_line (foldl process_line [] before) line) after)"
  by (simp add: parse_lines_def)

text \<open>
  Claim C3, amended: for a candidate line with more than 6 fields whose repaired name is
  an auto-generated \<^verbatim>\<open>User <digits>\<close> (\<^const>\<open>is_user_star\<close>), the filter of line 58 drops the
  record if and only if its passcode, spaces removed, is empty or \<^verbatim>\<open>"0"\<close>. A record that
  passes the filter is in the output unless a line before it was kept under the same
  id: then line 60 discards it as a duplicate. So, with \<open>before\<close> the lines before the
  line and \<open>after\<close> the lines after it: when the record is dropped or a duplicate, the
  output is that of the file without the line; otherwise the record follows the records
  of the lines before it. In a file of the one line, \<^verbatim>\<open>User 7\<close> with passcode \<^verbatim>\<open>0\<close> is
  excluded and \<^verbatim>\<open>User 7\<close> with passcode \<^verbatim>\<open>4821\<close> is included.
\<close>

theorem placeholder_filter:
  assumes "prefix ''User '' (clean_line line)"
    and "length (line_parts (clean_line line)) > 6"
    and "is_user_star (user_name_of (line_parts (clean_line line)))"
  shows "(let parts = line_parts (clean_line line);
              dropped = (passcode_of parts = [] \<or> passcode_of parts = ''0'');
              user_id = user_id_of parts;
              rec = [user_name_of parts, passcode_of parts, auth_val_of parts];
              duplicate = (user_id \<in> set (map fst (foldl process_line [] before)))
          in (line_record line = None \<longleftrightarrow> dropped) \<and>
             (\<not> dropped \<longrightarrow> line_record line = Some (user_id, rec)) \<and>
             parse_lines [line] = (if dropped then [] else [rec]) \<and>
             process_line seen line =
               (if dropped \<or> user_id \<in> set (map fst seen) then seen else seen @ [(user_id, rec)]) \<and>
             (dropped \<or> duplicate \<longrightarrow>
                parse_lines (before @ line # after) = parse_lines (before @ after)) \<and>
             (\<not> dropped \<and> \<not> duplicate \<longrightarrow>
                (\<exists>rest. parse_lines (before @ line # after) = parse_lines before @ rec # rest)))"
proof -
  let ?parts = "line_parts (clean_line line)"
  let ?dropped = "passcode_of ?parts = [] \<or> passcode_of ?parts = ''0''"
  let ?id = "user_id_of ?parts"
  let ?rec = "[user_name_of ?parts, passcode_of ?parts, auth_val_of ?parts]"
  let ?S = "foldl process_line [] before"
  have rec: "line_record line = (if ?dropped then None else Some (?id, ?rec))"
    using assms by (auto simp: line_record_def has_passcode_def Let_def)
  have step: "\<And>seen. process_line seen line =
      (if ?dropped \<or> ?id \<in> set (map fst seen) then seen else seen @ [(?id, ?rec)])"
    by (auto simp: process_line_def rec)
  have single: "parse_lines [line] = (if ?dropped then [] else [?rec])"
    by (simp add: parse_lines_single rec)
  have out: "?dropped \<or> ?id \<in> set (map fst ?S) \<Longrightarrow>
      parse_lines (before @ line # after) = parse_lines (before @ after)"
  proof -
    assume "?dropped \<or> ?id \<in> set (map fst ?S)"
    then have "process_line ?S line = ?S" by (simp only: step if_True)
    then show ?thesis by (simp add: parse_lines_def)
  qed
  have "in": "\<not> ?dropped \<and> ?id \<notin> set (map fst ?S) \<Longrightarrow>
      \<exists>rest. parse_lines (before @ line # after) = parse_lines before @ ?rec # rest"
  proof -
    assume "\<not> ?dropped \<and> ?id \<notin> set (map fst ?S)"
    then have "process_line ?S line = ?S @ [(?id, ?rec)]" by (simp only: step) simp
    moreover obtain ext where
      "foldl process_line (?S @ [(?id, ?rec)]) after = (?S @ [(?id, ?rec)]) @ ext"
      using foldl_process_line_extends by blast
    ultimately have "parse_lines (before @ line # after) = parse_lines before @ ?rec # map snd ext"
      by (simp add: parse_lines_around parse_lines_def)
    then show ?thesis by blast
  qed
  show ?thesis
    unfolding Let_def using rec step single out "in" by auto
qed

text \<open>
  The two lines of the claim, each as a file of its own, and the second after a kept line
  of the same id.
\<close>

theorem placeholder_filter_witness:
  "is_user_star (user_name_of (line_parts (clean_line ''User 7, User 7, 0, x,x,0,0,1,0,0,0,0,0''))) \<and>
   is_user_star (user_name_of (line_parts (clean_line ''User 7, User 7, 4821, x,x,0,0,1,0,0,0,0,0''))) \<and>
   line_record ''User 7, User 7, 0, x,x,0,0,1,0,0,0,0,0'' = None \<and>
   parse_lines [''User 7, User 7, 0, x,x,0,0,1,0,0,0,0,0''] = [] \<and>
   parse_lines [''User 7, User 7, 4821, x,x,0,0,1,0,0,0,0,0''] = [[''User 7'', ''4821'', ''A3'']] \<and>
   parse_lines [''User 7, Ann, 1111, x,x,1,0'', ''User 7, User 7, 4821, x,x,0,0,1,0,0,0,0,0''] =
     parse_lines [''User 7, Ann, 1111, x,x,1,0'']"
proof -
  let ?a = "''User 7, User 7, 0, x,x,0,0,1,0,0,0,0,0''"
  let ?b = "''User 7, User 7, 4821, x,x,0,0,1,0,0,0,0,0''"
  let ?ann = "''User 7, Ann, 1111, x,x,1,0''"
  have a1: "prefix ''User '' (clean_line ?a)" by code_simp
  have a2: "length (line_parts (clean_line ?a)) > 6" by code_simp
  have a3: "is_user_star (user_name_of (line_parts (clean_line ?a)))" by code_simp
  have a4: "passcode_of (line_parts (clean_line ?a)) = ''0''" by code_simp
  have b1: "prefix ''User '' (clean_line ?b)" by code_simp
  have b2: "length (line_parts (clean_line ?b)) > 6" by code_simp
  have b3: "is_user_star (user_name_of (line_parts (clean_line ?b)))" by code_simp
  have b4: "passcode_of (line_parts (clean_line ?b)) = ''4821''" by code_simp
  have b5: "user_name_of (line_parts (clean_line ?b)) = ''User 7''" by code_simp
  have b6: "auth_val_of (line_parts (clean_line ?b)) = ''A3''" by code_simp
  have b7: "user_id_of (line_parts (clean_line ?b)) \<in> set (map fst (foldl process_line [] [?ann]))"
    by code_simp
  have "line_record ?a = None \<and> parse_lines [?a] = [] \<and>
        parse_lines [?b] = [[''User 7'', ''4821'', ''A3'']]"
    using placeholder_filter [OF a1 a2 a3, of "[]" "[]" "[]"] placeholder_filter [OF b1 b2 b3, of "[]" "[]" "[]"]
    by (simp add: Let_def a4 b4 b5 b6)
  moreover have "parse_lines [?ann, ?b] = parse_lines [?ann]"
    using placeholder_filter [OF b1 b2 b3, of "[?ann]" "[]" "[]"] b7
    by (simp add: Let_def)
  ultimately show ?thesis using a3 b3 by blast
qed

text \<open>
  Claim C3 as stated fails: the line \<^verbatim>\<open>User 7\<close> with passcode \<^verbatim>\<open>4821\<close> has more than 6 fields,
  an auto-generated name and a passcode that is neither empty nor \<^verbatim>\<open>"0"\<close>, and it is not in
  the output: the line before it was kept under the id \<open>7\<close>.
\<close>

theorem placeholder_with_passcode_dropped_as_duplicate:
  "prefix ''User '' (clean_line ''User 7, User 7, 4821, x,x,0,0,1,0,0,0,0,0'') \<and>
   length (line_parts (clean_line ''User 7, User 7, 4821, x,x,0,0,1,0,0,0,0,0'')) > 6 \<and>
   is_user_star (user_name_of (line_parts (clean_line ''User 7, User 7, 4821, x,x,0,0,1,0,0,0,0,0''))) \<and>
   passcode_of (line_parts (clean_line ''User 7, User 7, 4821, x,x,0,0,1,0,0,0,0,0'')) = ''4821'' \<and>
   parse_lines [''User 7, Ann, 1111, x,x,1,0'', ''User 7, User 7, 4821, x,x,0,0,1,0,0,0,0,0'']
     = [[''Ann'', ''1111'', ''A1'']]"
  by code_simp

subsection \<open>The authority level\<close>









subsection \<open>The end-to-end scenario\<close>

text \<open>
  Claim C5, amended: for the single line
  \<^verbatim>\<open>User 0, J o hn  Sm ith, 4821, x,x,0,0,1,0,0,0,0,0\<close> the parser returns exactly one
  record, with name \<^verbatim>\<open>J ohn Smith\<close>, passcode \<^verbatim>\<open>4821\<close> and authority level \<^verbatim>\<open>A3\<close>. The first
  pass joins \<^verbatim>\<open>o hn\<close> and \<^verbatim>\<open>Sm ith\<close>; no pass joins the capital \<^verbatim>\<open>J\<close> with \<^verbatim>\<open>ohn\<close>, since the
  second pass only joins a letter with one or two lower-case letters that end a word.
\<close>

theorem scenario_name_keeps_a_space:
  "sub_lower_gap ''J o hn  Sm ith'' = ''J ohn  Smith'' \<and>
   sub_short_tail ''J ohn  Smith'' = ''J ohn  Smith'' \<and>
   parse_bosch_txt
     [''export.txt'' \<mapsto> Regular True [''User 0, J o hn  Sm ith, 4821, x,x,0,0,1,0,0,0,0,0'']]
     ''export.txt''
   = Inr [[''J ohn Smith'', ''4821'', ''A3'']]"
  by code_simp

text \<open>Claim C5 as stated fails: the record of that line does not have the name \<^verbatim>\<open>John Smith\<close>.\<close>

theorem scenario_name_is_not_repaired:
  "parse_bosch_txt
     [''export.txt'' \<mapsto> Regular True [''User 0, J o hn  Sm ith, 4821, x,x,0,0,1,0,0,0,0,0'']]
     ''export.txt''
   \<noteq> Inr [[''John Smith'', ''4821'', ''A3'']]"
  by code_simp

subsection \<open>The shape of the output\<close>

lemma line_record_fields:
  "line_record l = Some (user_id, rec) \<Longrightarrow>
   user_id = user_id_of (line_parts (clean_line l)) \<and>
   rec = [user_name_of (line_parts (clean_line l)), passcode_of (line_parts (clean_line l)),
          auth_val_of (line_parts (clean_line l))]"
  by (auto simp: line_record_def Let_def split: if_splits)

lemma process_line_from:
  "kv \<in> set (process_line seen line) \<Longrightarrow> kv \<in> set seen \<or> line_record line = Some kv"
  by (auto simp: process_line_def split: option.splits if_splits)

lemma foldl_process_line_from:
  "kv \<in> set (foldl process_line seen lines) \<Longrightarrow>
   kv \<in> set seen \<or> (\<exists>l \<in> set lines. line_record l = Some kv)"
proof (induction lines arbitrary: seen)
  case Nil
  then show ?case by simp
next
  case (Cons l lines)
  from Cons.prems have "kv \<in> set (foldl process_line (process_line seen l) lines)" by simp
  from Cons.IH [OF this] show ?case
    using process_line_from [of kv seen l] by auto
qed

lemma parsed_records_three_fields:
  "rec \<in> set (parse_lines lines) \<Longrightarrow> length rec = 3"
proof -
  assume "rec \<in> set (parse_lines lines)"
  then obtain user_id where "(user_id, rec) \<in> set (foldl process_line [] lines)"
    by (auto simp: parse_lines_def)
  from foldl_process_line_from [OF this]
  obtain l where "line_record l = Some (user_id, rec)" by auto
  from line_record_fields [OF this] show ?thesis by simp
qed

text \<open>
  Claim C6, amended: every element of the returned list is the three-element list
  \<^verbatim>\<open>[user_name, passcode, auth_val]\<close> of a line of the file that reached the
  deduplication. The id of that line is the key under which \<^verbatim>\<open>seen_users\<close> holds the
  record; line 64 returns the values of the dict only, so the id is no part of the
  element.
\<close>

theorem records_without_id:
  "\<forall>rec \<in> set (parse_lines lines).
     \<exists>l \<in> set lines.
       line_record l = Some (user_id_of (line_parts (clean_line l)), rec) \<and>
       rec = [user_name_of (line_parts (clean_line l)), passcode_of (line_parts (clean_line l)),
              auth_val_of (line_parts (clean_line l))]"
proof
  fix rec
  assume "rec \<in> set (parse_lines lines)"
  then obtain user_id where "(user_id, rec) \<in> set (foldl process_line [] lines)"
    by (auto simp: parse_lines_def)
  from foldl_process_line_from [OF this]
  obtain l where l: "l \<in> set lines" "line_record l = Some (user_id, rec)" by auto
  from line_record_fields [OF l(2)] l show
    "\<exists>l \<in> set lines.
       line_record l = Some (user_id_of (line_parts (clean_line l)), rec) \<and>
       rec = [user_name_of (line_parts (clean_line l)), passcode_of (line_parts (clean_line l)),
              auth_val_of (line_parts (clean_line l))]"
    by auto
qed

theorem records_without_id_witness:
  "[''Bob'', ''1234'', ''A1''] \<in> set (parse_lines [''User 17, Bob, 1234, x,x,1,0'']) \<and>
   line_record ''User 17, Bob, 1234, x,x,1,0'' = Some (''17'', [''Bob'', ''1234'', ''A1''])"
proof -
  have m: "[''Bob'', ''1234'', ''A1''] \<in> set (parse_lines [''User 17, Bob, 1234, x,x,1,0''])"
    by code_simp
  have u: "user_id_of (line_parts (clean_line ''User 17, Bob, 1234, x,x,1,0'')) = ''17''"
    by code_simp
  from records_without_id [of "[''User 17, Bob, 1234, x,x,1,0'']", rule_format, OF m] u m
  show ?thesis by simp
qed

text \<open>
  Claim C6 as stated fails: the record of the line with id \<open>17\<close> does not hold \<open>17\<close>, and
  the same line with id \<open>18\<close> gives the same output, so the id cannot be read off the
  returned list.
\<close>

theorem record_does_not_hold_id:
  "parse_lines [''User 17, Bob, 1234, x,x,1,0''] = [[''Bob'', ''1234'', ''A1'']] \<and>
   user_id_of (line_parts (clean_line ''User 17, Bob, 1234, x,x,1,0'')) = ''17'' \<and>
   ''17'' \<notin> set (hd (parse_lines [''User 17, Bob, 1234, x,x,1,0''])) \<and>
   parse_lines [''User 18, Bob, 1234, x,x,1,0''] = parse_lines [''User 17, Bob, 1234, x,x,1,0'']"
  by code_simp

subsection \<open>Failure\<close>

lemma loop_fields_guarded:
  "length parts > 6 \<Longrightarrow>
   loop_fields parts = Inr (user_id_of parts, user_name_of parts, passcode_of parts)"
  by (auto simp: loop_fields_def index_def user_id_of_def user_name_of_def passcode_of_def)

lemma loop_body_process_line: "loop_body seen line = Inr (process_line seen line)"
  by (simp add: loop_body_def process_line_def line_record_def loop_fields_guarded Let_def)

lemma loop_foldl: "loop seen lines = Inr (foldl process_line seen lines)"
  by (induction lines arbitrary: seen) (simp_all add: loop_body_process_line)

lemma parse_bosch_txt_cases:
  "parse_bosch_txt fs filepath =
     (case fs filepath of
        None \<Rightarrow> Inl (ValueError ''Invalid file path'')
      | Some Directory \<Rightarrow> Inl (ValueError ''Invalid file path'')
      | Some (Regular readable lines) \<Rightarrow>
          if readable then Inr (parse_lines lines) else Inl PermissionError)"
  by (simp add: parse_bosch_txt_def isfile_def loop_foldl parse_lines_def
           split: option.splits node.splits)


lemma process_line_empty:
  "process_line seen l = [] \<longleftrightarrow> seen = [] \<and> line_record l = None"
  by (auto simp: process_line_def split: option.splits)

lemma foldl_process_line_empty:
  "foldl process_line seen lines = [] \<longleftrightarrow> seen = [] \<and> list_all (\<lambda>l. line_record l = None) lines"
  by (induction lines arbitrary: seen) (auto simp: process_line_empty)

lemma parse_lines_empty:
  "parse_lines lines = [] \<longleftrightarrow> list_all (\<lambda>l. line_record l = None) lines"
  by (simp add: parse_lines_def foldl_process_line_empty)

text \<open>
  Claim C8: the parser raises if and only if the path does not name a regular file that
  can be read: \<^verbatim>\<open>ValueError("Invalid file path")\<close> from line 14 when the path names no
  regular file, the error of \<^verbatim>\<open>open\<close> when the file cannot be read. No line makes the body
  of the loop raise: the indexings \<^verbatim>\<open>parts[0]\<close>, \<^verbatim>\<open>parts[1]\<close> and \<^verbatim>\<open>parts[2]\<close> stand behind the
  test \<^verbatim>\<open>len(parts) > 6\<close> of line 22, so \<^const>\<open>loop_body\<close> and \<^const>\<open>loop\<close> always return, and
  return what \<^const>\<open>process_line\<close> and its fold give. For every readable regular file the
  parser therefore returns the list of records, never \<^verbatim>\<open>IndexError\<close>; the list is empty
  exactly when no line gives a record. A returned empty list \<open>Inr []\<close> is not an error
  \<open>Inl e\<close>.
\<close>

theorem parse_bosch_txt_outcome:
  "(\<forall>seen line. loop_body seen line = Inr (process_line seen line)) \<and>
   (\<forall>seen lines. loop seen lines = Inr (foldl process_line seen lines)) \<and>
   parse_bosch_txt fs filepath =
     (case fs filepath of
        None \<Rightarrow> Inl (ValueError ''Invalid file path'')
      | Some Directory \<Rightarrow> Inl (ValueError ''Invalid file path'')
      | Some (Regular readable lines) \<Rightarrow>
          if readable then Inr (parse_lines lines) else Inl PermissionError) \<and>
   parse_bosch_txt fs filepath \<noteq> Inl IndexError \<and>
   ((\<exists>e. parse_bosch_txt fs filepath = Inl e) \<longleftrightarrow>
      (\<forall>lines. fs filepath \<noteq> Some (Regular True lines))) \<and>
   ((\<exists>recs. parse_bosch_txt fs filepath = Inr recs) \<longleftrightarrow>
      (\<exists>lines. fs filepath = Some (Regular True lines))) \<and>
   (parse_lines lines = [] \<longleftrightarrow> list_all (\<lambda>l. line_record l = None) lines)"
proof -
  note outcome = parse_bosch_txt_cases [of fs filepath]
  have no_index: "parse_bosch_txt fs filepath \<noteq> Inl IndexError"
    unfolding outcome by (auto split: option.splits node.splits)
  have fails: "(\<exists>e. parse_bosch_txt fs filepath = Inl e) \<longleftrightarrow>
      (\<forall>lines. fs filepath \<noteq> Some (Regular True lines))"
    unfolding outcome by (auto split: option.splits node.splits)
  have returns: "(\<exists>recs. parse_bosch_txt fs filepath = Inr recs) \<longleftrightarrow>
      (\<exists>lines. fs filepath = Some (Regular True lines))"
    unfolding outcome by (auto split: option.splits node.splits)
  from outcome no_index fails returns parse_lines_empty [of lines]
    loop_body_process_line loop_foldl
  show ?thesis by blast
qed

text \<open>
  Lines that are too short, empty or only separators raise nothing; a file without a
  record gives the empty list, a missing file and an unreadable file give an error.
\<close>

theorem parse_bosch_txt_outcome_witness:
  "loop_body [] ''User 1'' = Inr [] \<and>
   loop [] [''User 1'', ''User'', '','', ''User 2,,'', ''User 3, Cy, 77, x,x,0,1''] =
     Inr [(''3'', [''Cy'', ''77'', ''A2''])] \<and>
   parse_bosch_txt [''export.txt'' \<mapsto> Regular True [''Name, Passcode'', ''User 1, Bob'']] ''export.txt'' = Inr [] \<and>
   (\<exists>e. parse_bosch_txt [''export.txt'' \<mapsto> Regular True []] ''missing.txt'' = Inl e) \<and>
   parse_bosch_txt [''export.txt'' \<mapsto> Regular False []] ''export.txt'' = Inl PermissionError"
proof -
  let ?ls = "[''Name, Passcode'', ''User 1, Bob'']"
  let ?ms = "[''User 1'', ''User'', '','', ''User 2,,'', ''User 3, Cy, 77, x,x,0,1'']"
  note out = parse_bosch_txt_outcome
  have none: "list_all (\<lambda>l. line_record l = None) ?ls" by code_simp
  have short: "process_line [] ''User 1'' = []" by code_simp
  have kept: "foldl process_line [] ?ms = [(''3'', [''Cy'', ''77'', ''A2''])]" by code_simp
  have "loop_body [] ''User 1'' = Inr []"
    using out [THEN conjunct1, rule_format, of "[]" "''User 1''"] short by simp
  moreover have "loop [] ?ms = Inr [(''3'', [''Cy'', ''77'', ''A2''])]"
    using out [THEN conjunct2, THEN conjunct1, rule_format, of "[]" ?ms] kept by simp
  moreover have "parse_bosch_txt [''export.txt'' \<mapsto> Regular True ?ls] ''export.txt'' = Inr []"
    using out [of "[''export.txt'' \<mapsto> Regular True ?ls]" "''export.txt''" ?ls] none
    by simp
  moreover have "\<exists>e. parse_bosch_txt [''export.txt'' \<mapsto> Regular True []] ''missing.txt'' = Inl e"
    using out [of "[''export.txt'' \<mapsto> Regular True []]" "''missing.txt''" "[]"]
    by simp
  moreover have "parse_bosch_txt [''export.txt'' \<mapsto> Regular False []] ''export.txt'' = Inl PermissionError"
    using out [of "[''export.txt'' \<mapsto> Regular False []]" "''export.txt''" "[]"]
    by simp
  ultimately show ?thesis by blast
qed

section \<open>Properties of the renderer\<close>

subsection \<open>Escaping of names and passcodes\<close>

lemma replace_single:
  "replace [c] new s = concat (map (\<lambda>x. if x = c then new else [x]) s)"
  by (induction s) auto

lemma replace_single_append:
  "replace [c] new (xs @ ys) = replace [c] new xs @ replace [c] new ys"
  by (simp add: replace_single)

lemma html_escape_append:
  "html_escape (xs @ ys) = html_escape xs @ html_escape ys"
  by (simp add: html_escape_def replace_single_append)

lemma html_escape_char: "html_escape [c] = html_entity c"
  by (simp add: html_escape_def html_entity_def)

lemma html_escape_entities: "html_escape s = concat (map html_entity s)"
proof (induction s)
  case Nil
  show ?case by (simp add: html_escape_def)
next
  case (Cons c s)
  have "html_escape (c # s) = html_escape ([c] @ s)" by simp
  also have "\<dots> = html_entity c @ html_escape s"
    by (simp only: html_escape_append html_escape_char)
  finally show ?case using Cons.IH by simp
qed

lemma utf8_append: "utf8 (xs @ ys) = utf8 xs @ utf8 ys"
  by (simp add: utf8_def)

lemma markup_is_ascii: "is_markup c \<Longrightarrow> (of_char c :: nat) < 128"
  by (auto simp: is_markup_def)

lemma utf8_bytes_not_ascii:
  fixes n :: nat
  assumes "n < 256"
  shows "128 \<le> (192 + n div 64) mod 256" and "128 \<le> (128 + n mod 64) mod 256"
proof -
  have "n div 64 < 4" using assms by (simp add: div_less_iff_less_mult)
  then have "(192 + n div 64) mod 256 = 192 + n div 64" by simp
  then show "128 \<le> (192 + n div 64) mod 256" by simp
  have "n mod 64 < 64" by simp
  then have "(128 + n mod 64) mod 256 = 128 + n mod 64" by simp
  then show "128 \<le> (128 + n mod 64) mod 256" by simp
qed

lemma utf8_char_markup: "filter is_markup (utf8_char c) = (if is_markup c then [c] else [])"
proof (cases "(of_char c :: nat) < 128")
  case True
  then show ?thesis by (simp add: utf8_char_def)
next
  case False
  let ?n = "of_char c :: nat"
  have n: "?n < 256" by simp
  have b1: "\<not> is_markup (char_of (192 + ?n div 64))"
    using markup_is_ascii [of "char_of (192 + ?n div 64)"] utf8_bytes_not_ascii(1) [OF n]
    by (simp only: of_char_of) auto
  have b2: "\<not> is_markup (char_of (128 + ?n mod 64))"
    using markup_is_ascii [of "char_of (128 + ?n mod 64)"] utf8_bytes_not_ascii(2) [OF n]
    by (simp only: of_char_of) auto
  have "\<not> is_markup c"
    using False markup_is_ascii by blast
  with False b1 b2 show ?thesis by (simp add: utf8_char_def Let_def)
qed

lemma html_entity_markup: "filter is_markup (utf8 (html_entity c)) = []"
proof -
  have special: "utf8 ''&amp;'' = ''&amp;''" "utf8 ''&lt;'' = ''&lt;''" "utf8 ''&gt;'' = ''&gt;''"
    "utf8 ''&quot;'' = ''&quot;''" "utf8 ''&#x27;'' = ''&#x27;''"
    by code_simp+
  show ?thesis
    by (auto simp: html_entity_def special utf8_def utf8_char_markup is_markup_def)
qed

lemma html_escape_markup: "filter is_markup (utf8 (html_escape s)) = []"
  by (induction s) (simp_all add: html_escape_entities utf8_append html_entity_markup, simp add: utf8_def)


lemma utf8_script: "utf8 ''&lt;script&gt;'' = ''&lt;script&gt;''"
  by code_simp

lemma table_rows_wf:
  "\<forall>row \<in> set data. 3 \<le> length row \<Longrightarrow>
   table_rows data =
     Inr (concat (map (\<lambda>row. row_open @ utf8 (html_escape (row ! 0)) @ row_between
                          @ utf8 (html_escape (row ! 1)) @ row_select
                          @ concat (auth_options (auth_num_of (row ! 2))) @ row_close) data))"
  by (induction data) (simp_all add: table_row_def)

lemma rows_markup:
  "filter is_markup
     (concat (map (\<lambda>row. row_open @ utf8 (html_escape (row ! 0)) @ row_between
                          @ utf8 (html_escape (row ! 1)) @ row_select
                          @ concat (auth_options (auth_num_of (row ! 2))) @ row_close) data)) =
   concat (map (\<lambda>a. filter is_markup (row_open @ row_between @ row_select
                          @ concat (auth_options (auth_num_of a)) @ row_close))
             (map (\<lambda>row. row ! 2) data))"
  by (induction data) (simp_all add: html_escape_markup)

text \<open>
  Claim C1: for every list of records (each with its three fields; the records of the
  parser have them, \<open>parsed_records_three_fields\<close>, and on a record with fewer line 110
  raises), the document is the text of the template around one row per record, in the
  order of the records, and
  \<^item> the row of a record holds the escaped name and the escaped passcode in its two
    cells, so the document contains them;
  \<^item> the characters \<^verbatim>\<open>< > " '\<close> of the document, which open and close its tags and
    attribute values, are the same for any two lists of records with the same authority
    levels: no name and no passcode adds or removes one;
  \<^item> the escaped text holds an entity in the place of each of \<^verbatim>\<open>& < > " '\<close> and none of
    \<^verbatim>\<open>< > " '\<close>;
  \<^item> a name that contains \<^verbatim>\<open><script>\<close> is written with \<^verbatim>\<open>&lt;script&gt;\<close> in its place.
\<close>

theorem user_text_is_escaped:
  assumes "\<forall>row \<in> set data. 3 \<le> length row"
  shows "generate_html now data password logo_data =
           Inr ((html_head @ (if logo_data \<noteq> None then logo_html logo_data else [])
                   @ html_after_logo @ strftime_b_d_Y now @ html_after_date
                   @ str_nat (length data) @ html_after_count)
                @ concat (map (\<lambda>row. row_open @ utf8 (html_escape (row ! 0)) @ row_between
                                  @ utf8 (html_escape (row ! 1)) @ row_select
                                  @ concat (auth_options (auth_num_of (row ! 2))) @ row_close) data)
                @ (html_after_rows
                   @ (if password \<noteq> [] then json_dumps password else [CHR 0x22, CHR 0x22])
                   @ html_script)) \<and>
         (\<forall>row \<in> set data. \<exists>before after.
            generate_html now data password logo_data =
              Inr (before @ (row_open @ utf8 (html_escape (row ! 0)) @ row_between
                             @ utf8 (html_escape (row ! 1)) @ row_select) @ after)) \<and>
         (\<forall>data'. (\<forall>row \<in> set data'. 3 \<le> length row) \<and>
                 map (\<lambda>row. row ! 2) data' = map (\<lambda>row. row ! 2) data \<longrightarrow>
            (\<exists>doc doc'. generate_html now data password logo_data = Inr doc \<and>
                        generate_html now data' password logo_data = Inr doc' \<and>
                        filter is_markup doc' = filter is_markup doc)) \<and>
         (\<forall>s. html_escape s = concat (map html_entity s) \<and>
              filter is_markup (utf8 (html_escape s)) = []) \<and>
         (\<forall>a b. utf8 (html_escape (a @ ''<script>'' @ b)) =
                 utf8 (html_escape a) @ ''&lt;script&gt;'' @ utf8 (html_escape b))"
proof -
  let ?render = "\<lambda>row. row_open @ utf8 (html_escape (row ! 0)) @ row_between
                                  @ utf8 (html_escape (row ! 1)) @ row_select
                                  @ concat (auth_options (auth_num_of (row ! 2))) @ row_close"
  let ?pre = "\<lambda>n. html_head @ (if logo_data \<noteq> None then logo_html logo_data else [])
                   @ html_after_logo @ strftime_b_d_Y now @ html_after_date
                   @ str_nat n @ html_after_count"
  let ?post = "html_after_rows
                   @ (if password \<noteq> [] then json_dumps password else [CHR 0x22, CHR 0x22])
                   @ html_script"
  have doc: "generate_html now d password logo_data =
      Inr (?pre (length d) @ concat (map ?render d) @ ?post)"
    if "\<forall>row \<in> set d. 3 \<le> length row" for d
    by (simp add: generate_html_def html_content_def table_rows_wf [OF that])
  have contains: "\<forall>row \<in> set data. \<exists>before after.
            generate_html now data password logo_data =
              Inr (before @ (row_open @ utf8 (html_escape (row ! 0)) @ row_between
                             @ utf8 (html_escape (row ! 1)) @ row_select) @ after)"
  proof
    fix row assume "row \<in> set data"
    then obtain xs ys where "data = xs @ row # ys"
      by (meson split_list)
    then have "concat (map ?render data) =
        concat (map ?render xs) @ (row_open @ utf8 (html_escape (row ! 0)) @ row_between
                             @ utf8 (html_escape (row ! 1)) @ row_select)
          @ (concat (auth_options (auth_num_of (row ! 2))) @ row_close @ concat (map ?render ys))"
      by simp
    then have "generate_html now data password logo_data =
        Inr ((?pre (length data) @ concat (map ?render xs))
             @ (row_open @ utf8 (html_escape (row ! 0)) @ row_between
                             @ utf8 (html_escape (row ! 1)) @ row_select)
             @ (concat (auth_options (auth_num_of (row ! 2))) @ row_close
                @ concat (map ?render ys) @ ?post))"
      by (simp only: doc [OF assms] append_assoc)
    then show "\<exists>before after.
            generate_html now data password logo_data =
              Inr (before @ (row_open @ utf8 (html_escape (row ! 0)) @ row_between
                             @ utf8 (html_escape (row ! 1)) @ row_select) @ after)"
      by blast
  qed
  have markup: "\<forall>data'. (\<forall>row \<in> set data'. 3 \<le> length row) \<and>
                 map (\<lambda>row. row ! 2) data' = map (\<lambda>row. row ! 2) data \<longrightarrow>
            (\<exists>doc doc'. generate_html now data password logo_data = Inr doc \<and>
                        generate_html now data' password logo_data = Inr doc' \<and>
                        filter is_markup doc' = filter is_markup doc)"
  proof (intro allI impI)
    fix data'
    assume h: "(\<forall>row \<in> set data'. 3 \<le> length row) \<and>
                 map (\<lambda>row. row ! 2) data' = map (\<lambda>row. row ! 2) data"
    then have wf': "\<forall>row \<in> set data'. 3 \<le> length row"
      and auth: "map (\<lambda>row. row ! 2) data' = map (\<lambda>row. row ! 2) data" by simp_all
    from auth have len: "length data' = length data"
      by (metis length_map)
    have "filter is_markup (concat (map ?render data')) = filter is_markup (concat (map ?render data))"
      by (simp only: rows_markup auth)
    then have "filter is_markup (?pre (length data') @ concat (map ?render data') @ ?post) =
        filter is_markup (?pre (length data) @ concat (map ?render data) @ ?post)"
      by (simp only: filter_append len)
    with doc [OF assms] doc [OF wf'] show
      "\<exists>doc doc'. generate_html now data password logo_data = Inr doc \<and>
                        generate_html now data' password logo_data = Inr doc' \<and>
                        filter is_markup doc' = filter is_markup doc"
      by blast
  qed
  have script: "\<forall>a b. utf8 (html_escape (a @ ''<script>'' @ b)) =
                 utf8 (html_escape a) @ ''&lt;script&gt;'' @ utf8 (html_escape b)"
  proof -
    have "html_escape ''<script>'' = ''&lt;script&gt;''" by code_simp
    then show ?thesis
      by (simp only: html_escape_append utf8_append utf8_script) simp
  qed
  from doc [OF assms] contains markup script html_escape_entities html_escape_markup
  show ?thesis by (intro conjI) (simp_all only: simp_thms)
qed

text \<open>
  A record whose name is a script element and whose passcode holds \<^verbatim>\<open>&\<close> and a quote: the
  document holds both escaped, and has the markup characters of the document for
  \<^verbatim>\<open>Bob\<close> and \<^verbatim>\<open>1234\<close>.
\<close>

theorem user_text_is_escaped_witness:
  "(\<exists>before after.
      generate_html \<lparr>year = 2026, month = 11, day = 4, hour = 9, minute = 30, second = 0\<rparr>
        [[''<script>alert(1)</script>'', ''12&\"34'', ''A2'']] ''pw'' None =
      Inr (before @ (row_open @ ''&lt;script&gt;alert(1)&lt;/script&gt;'' @ row_between
                     @ ''12&amp;&quot;34'' @ row_select) @ after)) \<and>
   (\<exists>doc doc'.
      generate_html \<lparr>year = 2026, month = 11, day = 4, hour = 9, minute = 30, second = 0\<rparr>
        [[''<script>alert(1)</script>'', ''12&\"34'', ''A2'']] ''pw'' None = Inr doc \<and>
      generate_html \<lparr>year = 2026, month = 11, day = 4, hour = 9, minute = 30, second = 0\<rparr>
        [[''Bob'', ''1234'', ''A2'']] ''pw'' None = Inr doc' \<and>
      filter is_markup doc' = filter is_markup doc)"
proof -
  let ?t = "\<lparr>year = 2026, month = 11, day = 4, hour = 9, minute = 30, second = 0\<rparr>"
  let ?data = "[[''<script>alert(1)</script>'', ''12&\"34'', ''A2'']]"
  let ?data' = "[[''Bob'', ''1234'', ''A2'']]"
  have wf: "\<forall>row \<in> set ?data. 3 \<le> length row" by simp
  have wf': "(\<forall>row \<in> set ?data'. 3 \<le> length row) \<and>
      map (\<lambda>row. row ! 2) ?data' = map (\<lambda>row. row ! 2) ?data" by simp
  have name: "utf8 (html_escape ''<script>alert(1)</script>'') = ''&lt;script&gt;alert(1)&lt;/script&gt;''"
    by code_simp
  have pass: "utf8 (html_escape ''12&\"34'') = ''12&amp;&quot;34''"
    by code_simp
  note escaped = user_text_is_escaped [OF wf, of ?t "''pw''" None]
  from escaped have "\<forall>row \<in> set ?data. \<exists>before after.
            generate_html ?t ?data ''pw'' None =
              Inr (before @ (row_open @ utf8 (html_escape (row ! 0)) @ row_between
                             @ utf8 (html_escape (row ! 1)) @ row_select) @ after)"
    by blast
  then have c: "\<exists>before after.
            generate_html ?t ?data ''pw'' None =
              Inr (before @ (row_open @ ''&lt;script&gt;alert(1)&lt;/script&gt;'' @ row_between
                     @ ''12&amp;&quot;34'' @ row_select) @ after)"
    using name pass by simp
  from escaped have "\<forall>data'. (\<forall>row \<in> set data'. 3 \<le> length row) \<and>
                 map (\<lambda>row. row ! 2) data' = map (\<lambda>row. row ! 2) ?data \<longrightarrow>
            (\<exists>doc doc'. generate_html ?t ?data ''pw'' None = Inr doc \<and>
                        generate_html ?t data' ''pw'' None = Inr doc' \<and>
                        filter is_markup doc' = filter is_markup doc)"
    by blast
  with wf' have "\<exists>doc doc'. generate_html ?t ?data ''pw'' None = Inr doc \<and>
                        generate_html ?t ?data' ''pw'' None = Inr doc' \<and>
                        filter is_markup doc' = filter is_markup doc"
    by blast
  with c show ?thesis by blast
qed

subsection \<open>Determinism\<close>

lemma generate_html_cases:
  "generate_html now data password logo_data =
     (case table_rows data of
        Inl e \<Rightarrow> Inl e
      | Inr rows \<Rightarrow>
          Inr ((html_head @ (if logo_data \<noteq> None then logo_html logo_data else []) @ html_after_logo)
               @ strftime_b_d_Y now
               @ (html_after_date @ str_nat (length data) @ html_after_count @ rows @ html_after_rows
                  @ (if password \<noteq> [] then json_dumps password else [CHR 0x22, CHR 0x22])
                  @ html_script)))"
  by (simp add: generate_html_def html_content_def split: sum.splits)

text \<open>
  Claim C9: \<^const>\<open>generate_html\<close> is a function of the records, the secret, the logo and
  the time of the run, and of the time it uses only the formatted date of line 737. Two
  runs on the same inputs whose formatted dates agree give the same bytes; over all
  times, the run either fails in the same way or gives one and the same text before and
  after the date.
\<close>

theorem output_varies_with_date_only:
  "(strftime_b_d_Y now = strftime_b_d_Y now' \<longrightarrow>
      generate_html now data password logo_data = generate_html now' data password logo_data) \<and>
   ((\<exists>e. \<forall>t. generate_html t data password logo_data = Inl e) \<or>
    (\<exists>before after. \<forall>t. generate_html t data password logo_data =
        Inr (before @ strftime_b_d_Y t @ after)))"
proof (intro conjI impI)
  assume same: "strftime_b_d_Y now = strftime_b_d_Y now'"
  show "generate_html now data password logo_data = generate_html now' data password logo_data"
    unfolding generate_html_cases same by (rule refl)
next
  show "(\<exists>e. \<forall>t. generate_html t data password logo_data = Inl e) \<or>
    (\<exists>before after. \<forall>t. generate_html t data password logo_data =
        Inr (before @ strftime_b_d_Y t @ after))"
  proof (cases "table_rows data")
    case (Inl e)
    then have "\<forall>t. generate_html t data password logo_data = Inl e"
      by (simp add: generate_html_cases)
    then show ?thesis by blast
  next
    case (Inr rows)
    then have "\<forall>t. generate_html t data password logo_data =
        Inr ((html_head @ (if logo_data \<noteq> None then logo_html logo_data else []) @ html_after_logo)
               @ strftime_b_d_Y t
               @ (html_after_date @ str_nat (length data) @ html_after_count @ rows @ html_after_rows
                  @ (if password \<noteq> [] then json_dumps password else [CHR 0x22, CHR 0x22])
                  @ html_script))"
      by (simp add: generate_html_cases)
    then show ?thesis by blast
  qed
qed

text \<open>Two runs on the same day, at different times.\<close>

theorem output_varies_with_date_only_witness:
  "strftime_b_d_Y \<lparr>year = 2026, month = 11, day = 4, hour = 9, minute = 30, second = 0\<rparr> =
   strftime_b_d_Y \<lparr>year = 2026, month = 11, day = 4, hour = 17, minute = 5, second = 59\<rparr> \<and>
   generate_html \<lparr>year = 2026, month = 11, day = 4, hour = 9, minute = 30, second = 0\<rparr>
     [[''Bob'', ''1234'', ''A1'']] ''pw'' None =
   generate_html \<lparr>year = 2026, month = 11, day = 4, hour = 17, minute = 5, second = 59\<rparr>
     [[''Bob'', ''1234'', ''A1'']] ''pw'' None"
proof -
  let ?t = "\<lparr>year = 2026, month = 11, day = 4, hour = 9, minute = 30, second = 0\<rparr>"
  let ?u = "\<lparr>year = 2026, month = 11, day = 4, hour = 17, minute = 5, second = 59\<rparr>"
  have same: "strftime_b_d_Y ?t = strftime_b_d_Y ?u"
    by (simp add: strftime_b_d_Y_def)
  from output_varies_with_date_only [of ?t ?u "[[''Bob'', ''1234'', ''A1'']]" "''pw''" None, THEN conjunct1] same
  show ?thesis by blast
qed

subsection \<open>The gate secret\<close>

lemma hex_value_digit: "d < 16 \<Longrightarrow> hex_value (hex_digit d) = Some d"
  by (auto simp: hex_value_def hex_digit_def Let_def)

lemma js_unicode_escape_char:
  "js_unicode_escape (CHR ''0'') (CHR ''0'') (hex_digit (of_char c div 16)) (hex_digit (of_char c mod 16)) = Some c"
proof -
  let ?n = "of_char c :: nat"
  have n: "?n < 256" by simp
  have hi: "?n div 16 < 16" using n by (simp add: div_less_iff_less_mult)
  have lo: "?n mod 16 < 16" by simp
  have zero: "hex_value (CHR ''0'') = Some 0" by code_simp
  have "((0 * 16 + 0) * 16 + ?n div 16) * 16 + ?n mod 16 = ?n" by simp
  then show ?thesis
    using n by (simp add: js_unicode_escape_def zero hex_value_digit [OF hi] hex_value_digit [OF lo])
qed

lemma js_chars_escape:
  "js_chars (json_escape_char c @ rest) = map_option ((#) c) (js_chars rest)"
proof -
  consider (quote) "c = CHR 0x22" | (bslash) "c = CHR 0x5C" | (lf) "c = CHR 0x0A" | (cr) "c = CHR 0x0D"
    | (tab) "c = CHR 0x09" | (bs) "c = CHR 0x08" | (ff) "c = CHR 0x0C"
    | (plain) "c \<noteq> CHR 0x22" "c \<noteq> CHR 0x5C" "c \<noteq> CHR 0x0A" "c \<noteq> CHR 0x0D" "c \<noteq> CHR 0x09"
        "c \<noteq> CHR 0x08" "c \<noteq> CHR 0x0C" "32 \<le> (of_char c :: nat) \<and> (of_char c :: nat) \<le> 126"
    | (other) "c \<noteq> CHR 0x22" "c \<noteq> CHR 0x5C" "c \<noteq> CHR 0x0A" "c \<noteq> CHR 0x0D" "c \<noteq> CHR 0x09"
        "c \<noteq> CHR 0x08" "c \<noteq> CHR 0x0C" "\<not> (32 \<le> (of_char c :: nat) \<and> (of_char c :: nat) \<le> 126)"
    by blast
  then show ?thesis
  proof cases
    case quote then show ?thesis by (simp add: json_escape_char_def js_escape_def)
  next
    case bslash then show ?thesis by (simp add: json_escape_char_def js_escape_def)
  next
    case lf then show ?thesis by (simp add: json_escape_char_def js_escape_def)
  next
    case cr then show ?thesis by (simp add: json_escape_char_def js_escape_def)
  next
    case tab then show ?thesis by (simp add: json_escape_char_def js_escape_def)
  next
    case bs then show ?thesis by (simp add: json_escape_char_def js_escape_def)
  next
    case ff then show ?thesis by (simp add: json_escape_char_def js_escape_def)
  next
    case plain then show ?thesis by (simp add: json_escape_char_def Let_def)
  next
    case other then show ?thesis
      by (simp add: json_escape_char_def Let_def js_unicode_escape_char)
  qed
qed

lemma js_chars_escaped: "js_chars (concat (map json_escape_char s) @ [CHR 0x22]) = Some s"
  by (induction s) (simp_all add: js_chars_escape)

lemma js_value_dumps: "js_string_value (json_dumps s) = Some s"
  by (simp add: js_string_value_def json_dumps_def js_chars_escaped)

lemma hex_digit_printable:
  "d < 16 \<Longrightarrow> 32 \<le> (of_char (hex_digit d) :: nat) \<and> (of_char (hex_digit d) :: nat) \<le> 126"
  by (auto simp: hex_digit_def)

lemma json_escape_char_printable:
  "list_all (\<lambda>x. 32 \<le> (of_char x :: nat) \<and> (of_char x :: nat) \<le> 126) (json_escape_char c)"
proof -
  let ?n = "of_char c :: nat"
  have "?n < 256" by simp
  then have hi: "?n div 16 < 16" by (simp add: div_less_iff_less_mult)
  have lo: "?n mod 16 < 16" by simp
  show ?thesis
    using hex_digit_printable [OF hi] hex_digit_printable [OF lo]
    by (simp add: json_escape_char_def Let_def)
qed

lemma json_dumps_printable:
  "list_all (\<lambda>x. 32 \<le> (of_char x :: nat) \<and> (of_char x :: nat) \<le> 126) (json_dumps s)"
proof -
  have "list_all (\<lambda>x. 32 \<le> (of_char x :: nat) \<and> (of_char x :: nat) \<le> 126)
          (concat (map json_escape_char s))"
    by (induction s) (simp_all add: json_escape_char_printable)
  then show ?thesis by (simp add: json_dumps_def)
qed

lemma after_rows_ends:
  "suffix (''<script>'' @ [CHR 0x0A] @ ''let PASSWORD = '') html_after_rows"
  by code_simp

lemma script_starts:
  "prefix ('';'' @ [CHR 0x0A] @ ''let currentPage = 1;'') html_script_01"
  by code_simp

lemma json_plain_char: "json_plain c \<Longrightarrow> json_escape_char c = [c]"
  by (auto simp: json_plain_def json_escape_char_def Let_def)

lemma json_plain_string: "list_all json_plain s \<Longrightarrow> concat (map json_escape_char s) = s"
  by (induction s) (simp_all add: json_plain_char)

text \<open>
  Claim C10: a non-empty secret stands in the script of the document as
  \<^verbatim>\<open>let PASSWORD = \<close>, \<^const>\<open>json_dumps\<close> of the secret, \<^verbatim>\<open>;\<close>. For every secret this text is a
  JavaScript string literal whose value is the secret (\<^const>\<open>js_string_value\<close>), written
  in printable ASCII; it is the secret between two quotes, character by character, with
  \<^verbatim>\<open>\"\<close>, \<^verbatim>\<open>\\\<close>, \<^verbatim>\<open>\n\<close>, \<^verbatim>\<open>\r\<close>, \<^verbatim>\<open>\t\<close>, \<^verbatim>\<open>\b\<close>, \<^verbatim>\<open>\f\<close> for these seven characters and \<^verbatim>\<open>\u00XX\<close> for every
  other character outside \<^verbatim>\<open>' '..'~'\<close>. A secret of other characters stands between the
  quotes as it is, with its \<^verbatim>\<open><\<close>, \<^verbatim>\<open>>\<close>, \<^verbatim>\<open>/\<close>, \<^verbatim>\<open>&\<close> and \<^verbatim>\<open>'\<close>: the escaping of C1 is not applied
  to it.
\<close>

theorem secret_embedded_as_json:
  assumes "password \<noteq> []" and "\<forall>row \<in> set data. 3 \<le> length row"
  shows "(\<exists>before after. generate_html now data password logo_data =
            Inr (before @ (''<script>'' @ [CHR 0x0A] @ ''let PASSWORD = '') @ json_dumps password
                 @ ('';'' @ [CHR 0x0A] @ ''let currentPage = 1;'') @ after)) \<and>
         js_string_value (json_dumps password) = Some password \<and>
         list_all (\<lambda>c. 32 \<le> (of_char c :: nat) \<and> (of_char c :: nat) \<le> 126) (json_dumps password) \<and>
         (\<forall>a b. json_dumps (a @ b) = butlast (json_dumps a) @ tl (json_dumps b)) \<and>
         (\<forall>c. json_dumps [c] = [CHR 0x22] @
            (if c = CHR 0x22 then [CHR 0x5C, CHR 0x22]
             else if c = CHR 0x5C then [CHR 0x5C, CHR 0x5C]
             else if c = CHR 0x0A then [CHR 0x5C, CHR ''n'']
             else if c = CHR 0x0D then [CHR 0x5C, CHR ''r'']
             else if c = CHR 0x09 then [CHR 0x5C, CHR ''t'']
             else if c = CHR 0x08 then [CHR 0x5C, CHR ''b'']
             else if c = CHR 0x0C then [CHR 0x5C, CHR ''f'']
             else if json_plain c then [c]
             else [CHR 0x5C, CHR ''u'', CHR ''0'', CHR ''0'',
                   hex_digit (of_char c div 16), hex_digit (of_char c mod 16)]) @ [CHR 0x22]) \<and>
         (list_all json_plain password \<longrightarrow> json_dumps password = [CHR 0x22] @ password @ [CHR 0x22])"
proof (intro conjI impI allI)
  obtain a where a: "html_after_rows = a @ (''<script>'' @ [CHR 0x0A] @ ''let PASSWORD = '')"
    using after_rows_ends unfolding suffix_def by blast
  obtain b where b: "html_script_01 = ('';'' @ [CHR 0x0A] @ ''let currentPage = 1;'') @ b"
    using script_starts unfolding prefix_def by blast
  obtain c where c: "html_script = html_script_01 @ c"
    unfolding html_script_def by blast
  obtain rows where rows: "table_rows data = Inr rows"
    using table_rows_wf [OF assms(2)] by blast
  let ?before = "html_head @ (if logo_data \<noteq> None then logo_html logo_data else []) @ html_after_logo
      @ strftime_b_d_Y now @ html_after_date @ str_nat (length data) @ html_after_count @ rows @ a"
  have "generate_html now data password logo_data =
      Inr (?before @ (''<script>'' @ [CHR 0x0A] @ ''let PASSWORD = '') @ json_dumps password
           @ ('';'' @ [CHR 0x0A] @ ''let currentPage = 1;'') @ (b @ c))"
    unfolding generate_html_def html_content_def rows c
    using assms(1) by (simp only: a b sum.case if_True append_assoc not_False_eq_True simp_thms)
  then show "\<exists>before after. generate_html now data password logo_data =
            Inr (before @ (''<script>'' @ [CHR 0x0A] @ ''let PASSWORD = '') @ json_dumps password
                 @ ('';'' @ [CHR 0x0A] @ ''let currentPage = 1;'') @ after)"
    by blast
next
  show "js_string_value (json_dumps password) = Some password"
    by (rule js_value_dumps)
next
  show "list_all (\<lambda>c. 32 \<le> (of_char c :: nat) \<and> (of_char c :: nat) \<le> 126) (json_dumps password)"
    by (rule json_dumps_printable)
next
  fix a b
  show "json_dumps (a @ b) = butlast (json_dumps a) @ tl (json_dumps b)"
    by (simp add: json_dumps_def butlast_append)
next
  fix c
  show "json_dumps [c] = [CHR 0x22] @
            (if c = CHR 0x22 then [CHR 0x5C, CHR 0x22]
             else if c = CHR 0x5C then [CHR 0x5C, CHR 0x5C]
             else if c = CHR 0x0A then [CHR 0x5C, CHR ''n'']
             else if c = CHR 0x0D then [CHR 0x5C, CHR ''r'']
             else if c = CHR 0x09 then [CHR 0x5C, CHR ''t'']
             else if c = CHR 0x08 then [CHR 0x5C, CHR ''b'']
             else if c = CHR 0x0C then [CHR 0x5C, CHR ''f'']
             else if json_plain c then [c]
             else [CHR 0x5C, CHR ''u'', CHR ''0'', CHR ''0'',
                   hex_digit (of_char c div 16), hex_digit (of_char c mod 16)]) @ [CHR 0x22]"
    by (simp add: json_dumps_def json_escape_char_def json_plain_def Let_def)
next
  assume "list_all json_plain password"
  then show "json_dumps password = [CHR 0x22] @ password @ [CHR 0x22]"
    by (simp add: json_dumps_def json_plain_string)
qed

text \<open>
  The secret \<^verbatim>\<open></script>\<close>: HTML escaping would change it; it is embedded unchanged. A secret
  with a quote, a backslash, a line feed and U+00E9: its literal, and the value of the
  literal.
\<close>

theorem secret_embedded_as_json_witness:
  "list_all json_plain ''</script>'' \<and>
   html_escape ''</script>'' \<noteq> ''</script>'' \<and>
   (\<exists>before after.
      generate_html \<lparr>year = 2026, month = 11, day = 4, hour = 9, minute = 30, second = 0\<rparr>
        [[''Bob'', ''1234'', ''A1'']] ''</script>'' None =
      Inr (before @ (''<script>'' @ [CHR 0x0A] @ ''let PASSWORD = '') @ ([CHR 0x22] @ ''</script>'' @ [CHR 0x22])
           @ ('';'' @ [CHR 0x0A] @ ''let currentPage = 1;'') @ after)) \<and>
   json_dumps (''a'' @ [CHR 0x22] @ ''b'' @ [CHR 0x5C, CHR 0x0A] @ ''caf'' @ [CHR 0xE9]) =
     [CHR 0x22] @ ''a'' @ [CHR 0x5C, CHR 0x22] @ ''b'' @ [CHR 0x5C, CHR 0x5C, CHR 0x5C] @ ''ncaf''
       @ [CHR 0x5C] @ ''u00e9'' @ [CHR 0x22] \<and>
   js_string_value (json_dumps (''a'' @ [CHR 0x22] @ ''b'' @ [CHR 0x5C, CHR 0x0A] @ ''caf'' @ [CHR 0xE9])) =
     Some (''a'' @ [CHR 0x22] @ ''b'' @ [CHR 0x5C, CHR 0x0A] @ ''caf'' @ [CHR 0xE9])"
proof -
  let ?t = "\<lparr>year = 2026, month = 11, day = 4, hour = 9, minute = 30, second = 0\<rparr>"
  let ?data = "[[''Bob'', ''1234'', ''A1'']]"
  let ?s = "''a'' @ [CHR 0x22] @ ''b'' @ [CHR 0x5C, CHR 0x0A] @ ''caf'' @ [CHR 0xE9]"
  have ne: "''</script>'' \<noteq> []" by simp
  have ne2: "?s \<noteq> []" by simp
  have wf: "\<forall>row \<in> set ?data. 3 \<le> length row" by simp
  have plain: "list_all json_plain ''</script>''" by code_simp
  have esc: "html_escape ''</script>'' \<noteq> ''</script>''" by code_simp
  have lit: "json_dumps ?s =
     [CHR 0x22] @ ''a'' @ [CHR 0x5C, CHR 0x22] @ ''b'' @ [CHR 0x5C, CHR 0x5C, CHR 0x5C] @ ''ncaf''
       @ [CHR 0x5C] @ ''u00e9'' @ [CHR 0x22]"
    by code_simp
  note embedded = secret_embedded_as_json [OF ne wf, of ?t None]
  from embedded plain
  have dumped: "json_dumps ''</script>'' = [CHR 0x22] @ ''</script>'' @ [CHR 0x22]"
    by blast
  from embedded
  have "\<exists>before after.
      generate_html ?t ?data ''</script>'' None =
      Inr (before @ (''<script>'' @ [CHR 0x0A] @ ''let PASSWORD = '') @ json_dumps ''</script>''
           @ ('';'' @ [CHR 0x0A] @ ''let currentPage = 1;'') @ after)"
    by blast
  then have "\<exists>before after.
      generate_html ?t ?data ''</script>'' None =
      Inr (before @ (''<script>'' @ [CHR 0x0A] @ ''let PASSWORD = '') @ ([CHR 0x22] @ ''</script>'' @ [CHR 0x22])
           @ ('';'' @ [CHR 0x0A] @ ''let currentPage = 1;'') @ after)"
    unfolding dumped .
  moreover have "js_string_value (json_dumps ?s) = Some ?s"
    using secret_embedded_as_json [OF ne2 wf, of ?t None] by blast
  ultimately show ?thesis using plain esc lit by blast
qed

section \<open>Properties of the rows of the opened report\<close>

lemma updateUserCount_rows: "tbody_rows (updateUserCount d) = tbody_rows d"
  by (simp add: updateUserCount_def Let_def)

lemma paginateTable_length: "length (tbody_rows (paginateTable d)) = length (tbody_rows d)"
  by (simp add: paginateTable_def Let_def)

lemma paginateTable_nth:
  "i < length (tbody_rows d) \<Longrightarrow>
   \<exists>h. tbody_rows (paginateTable d) ! i = (tbody_rows d ! i)\<lparr>display_none := h\<rparr>"
  by (auto simp: paginateTable_def Let_def)

lemma deleteRow_length: "length (tbody_rows (deleteRow confirm i d)) = length (tbody_rows d)"
  by (simp add: deleteRow_def paginateTable_length updateUserCount_rows)

lemma deleteRow_nth:
  assumes "i < length (tbody_rows d)"
  shows "\<exists>h. tbody_rows (deleteRow confirm i d) ! i =
              (toggle_deleted confirm (tbody_rows d ! i))\<lparr>display_none := h\<rparr>"
proof -
  let ?d = "updateUserCount (d\<lparr>tbody_rows := (tbody_rows d)[i := toggle_deleted confirm (tbody_rows d ! i)]\<rparr>)"
  have len: "i < length (tbody_rows ?d)"
    using assms by (simp add: updateUserCount_rows)
  have "tbody_rows ?d ! i = toggle_deleted confirm (tbody_rows d ! i)"
    using assms by (simp add: updateUserCount_rows)
  with paginateTable_nth [OF len] show ?thesis
    using assms by (simp add: deleteRow_def)
qed

lemma state_of_display [simp]: "state_of (r\<lparr>display_none := h\<rparr>) = state_of r"
  by (simp add: state_of_def)

lemma edit_row_blocked:
  "\<not> content_editable r \<Longrightarrow> select_disabled r \<Longrightarrow> edit_row f v r = r"
  by (cases f) (simp_all add: edit_row_def)

text \<open>
  Claim C7: the restore action on a deleted row removes the class \<^verbatim>\<open>deleted\<close> and leaves
  the classes \<^verbatim>\<open>modified\<close> and \<^verbatim>\<open>added\<close> and the three field values as they are. So a row
  that is deleted (with the prompt confirmed) and then restored is in the state it had
  before: \<open>Modified\<close> if it had been edited, \<open>Normal\<close> if not, \<open>Added\<close> if it was added,
  with its field values; while it is deleted no edit changes it. Restoring asks for no
  confirmation: the result is the same for either answer.
\<close>

theorem restore_returns_prior_state:
  assumes "i < length (tbody_rows d)"
  shows "(cls_deleted (tbody_rows d ! i) \<longrightarrow>
           (let r = tbody_rows d ! i;
                r' = tbody_rows (deleteRow confirm i d) ! i
            in \<not> cls_deleted r' \<and> cls_modified r' = cls_modified r \<and> cls_added r' = cls_added r \<and>
               cell_name r' = cell_name r \<and> cell_passcode r' = cell_passcode r \<and>
               select_value r' = select_value r)) \<and>
         (\<not> cls_deleted (tbody_rows d ! i) \<longrightarrow>
           (let r = tbody_rows d ! i;
                d1 = deleteRow True i d;
                r1 = tbody_rows d1 ! i;
                r2 = tbody_rows (deleteRow confirm i d1) ! i
            in state_of r1 = Deleted \<and> (\<forall>f v. edit_row f v r1 = r1) \<and>
               state_of r2 = state_of r \<and> cls_modified r2 = cls_modified r \<and> cls_added r2 = cls_added r \<and>
               cell_name r2 = cell_name r \<and> cell_passcode r2 = cell_passcode r \<and>
               select_value r2 = select_value r))"
proof (intro conjI impI)
  assume del: "cls_deleted (tbody_rows d ! i)"
  obtain h where "tbody_rows (deleteRow confirm i d) ! i =
      (toggle_deleted confirm (tbody_rows d ! i))\<lparr>display_none := h\<rparr>"
    using deleteRow_nth [OF assms] by blast
  then show "let r = tbody_rows d ! i;
                r' = tbody_rows (deleteRow confirm i d) ! i
            in \<not> cls_deleted r' \<and> cls_modified r' = cls_modified r \<and> cls_added r' = cls_added r \<and>
               cell_name r' = cell_name r \<and> cell_passcode r' = cell_passcode r \<and>
               select_value r' = select_value r"
    using del by (simp add: toggle_deleted_def Let_def)
next
  assume live: "\<not> cls_deleted (tbody_rows d ! i)"
  let ?d1 = "deleteRow True i d"
  obtain h1 where r1: "tbody_rows ?d1 ! i = (toggle_deleted True (tbody_rows d ! i))\<lparr>display_none := h1\<rparr>"
    using deleteRow_nth [OF assms] by blast
  have i1: "i < length (tbody_rows ?d1)"
    using assms by (simp add: deleteRow_length)
  obtain h2 where r2: "tbody_rows (deleteRow confirm i ?d1) ! i =
      (toggle_deleted confirm (tbody_rows ?d1 ! i))\<lparr>display_none := h2\<rparr>"
    using deleteRow_nth [OF i1] by blast
  have blocked: "\<forall>f v. edit_row f v (tbody_rows ?d1 ! i) = tbody_rows ?d1 ! i"
    using live by (simp add: r1 toggle_deleted_def edit_row_blocked)
  show "let r = tbody_rows d ! i;
                d1 = deleteRow True i d;
                r1 = tbody_rows d1 ! i;
                r2 = tbody_rows (deleteRow confirm i d1) ! i
            in state_of r1 = Deleted \<and> (\<forall>f v. edit_row f v r1 = r1) \<and>
               state_of r2 = state_of r \<and> cls_modified r2 = cls_modified r \<and> cls_added r2 = cls_added r \<and>
               cell_name r2 = cell_name r \<and> cell_passcode r2 = cell_passcode r \<and>
               select_value r2 = select_value r"
    unfolding Let_def
  proof (intro conjI)
    show "\<forall>f v. edit_row f v (tbody_rows ?d1 ! i) = tbody_rows ?d1 ! i" by (rule blocked)
  qed (use live in \<open>simp_all add: r2 r1 toggle_deleted_def state_of_def\<close>)
qed


text \<open>
  A loaded row, edited, deleted and restored: \<open>Normal\<close>, \<open>Modified\<close>, \<open>Deleted\<close>,
  \<open>Modified\<close> with the edited name. An added row, deleted and restored: \<open>Added\<close> again.
  A row that was not edited: \<open>Normal\<close> again.
\<close>

theorem restore_returns_prior_state_witness:
  "state_of (tbody_rows (loaded_report [[''Bob'', ''1234'', ''A1'']]) ! 0) = Normal \<and>
   state_of (tbody_rows (edit Name ''Rob'' 0 (loaded_report [[''Bob'', ''1234'', ''A1'']])) ! 0) = Modified \<and>
   state_of (tbody_rows (deleteRow True 0
      (edit Name ''Rob'' 0 (loaded_report [[''Bob'', ''1234'', ''A1'']]))) ! 0) = Deleted \<and>
   state_of (tbody_rows (deleteRow False 0 (deleteRow True 0
      (edit Name ''Rob'' 0 (loaded_report [[''Bob'', ''1234'', ''A1'']])))) ! 0) = Modified \<and>
   cell_name (tbody_rows (deleteRow False 0 (deleteRow True 0
      (edit Name ''Rob'' 0 (loaded_report [[''Bob'', ''1234'', ''A1'']])))) ! 0) = ''Rob'' \<and>
   state_of (tbody_rows (addRow (loaded_report [[''Bob'', ''1234'', ''A1'']])) ! 1) = Added \<and>
   state_of (tbody_rows (deleteRow False 1 (deleteRow True 1
      (addRow (loaded_report [[''Bob'', ''1234'', ''A1'']])))) ! 1) = Added \<and>
   state_of (tbody_rows (deleteRow False 0 (deleteRow True 0
      (loaded_report [[''Bob'', ''1234'', ''A1'']]))) ! 0) = Normal"
proof -
  let ?d0 = "loaded_report [[''Bob'', ''1234'', ''A1'']]"
  let ?d1 = "edit Name ''Rob'' 0 ?d0"
  let ?da = "addRow ?d0"
  have n0: "0 < length (tbody_rows ?d0)" and l0: "\<not> cls_deleted (tbody_rows ?d0 ! 0)"
    and s0: "state_of (tbody_rows ?d0 ! 0) = Normal"
    by code_simp+
  have n1: "0 < length (tbody_rows ?d1)" and l1: "\<not> cls_deleted (tbody_rows ?d1 ! 0)"
    and s1: "state_of (tbody_rows ?d1 ! 0) = Modified"
    and c1: "cell_name (tbody_rows ?d1 ! 0) = ''Rob''"
    by code_simp+
  have na: "1 < length (tbody_rows ?da)" and la: "\<not> cls_deleted (tbody_rows ?da ! 1)"
    and sa: "state_of (tbody_rows ?da ! 1) = Added"
    by code_simp+
  from restore_returns_prior_state [OF n0, of False, THEN conjunct2, rule_format, OF l0]
  have r0: "state_of (tbody_rows (deleteRow False 0 (deleteRow True 0 ?d0)) ! 0) = Normal"
    using s0 by (simp add: Let_def)
  from restore_returns_prior_state [OF n1, of False, THEN conjunct2, rule_format, OF l1]
  have r1: "state_of (tbody_rows (deleteRow True 0 ?d1) ! 0) = Deleted"
    "state_of (tbody_rows (deleteRow False 0 (deleteRow True 0 ?d1)) ! 0) = Modified"
    "cell_name (tbody_rows (deleteRow False 0 (deleteRow True 0 ?d1)) ! 0) = ''Rob''"
    using s1 c1 by (simp_all add: Let_def)
  from restore_returns_prior_state [OF na, of False, THEN conjunct2, rule_format, OF la]
  have ra: "state_of (tbody_rows (deleteRow False 1 (deleteRow True 1 ?da)) ! 1) = Added"
    using sa by (simp add: Let_def)
  from s0 s1 r1 sa ra r0 show ?thesis by blast
qed

end
